theory Spec2Isabelle
  imports Complex_Main "HOL-Library.AList" "HOL-Library.Log_Nat"
begin

section \<open>Values and documents\<close>

text \<open>
  The server stores and receives JSON-like documents. A field value is one of the scalar
  values below; \<open>JOid\<close> is a MongoDB ObjectId (its 96-bit number). A value that may be
  JavaScript's \<open>undefined\<close> has type \<open>jsval option\<close>, with \<open>None\<close> for \<open>undefined\<close>.
  Arrays and nested objects as field values are outside the model.

  A number is a JSON number: a finite double, held as the rational it denotes (so that
  \<open>0.5\<close> and \<open>1e16\<close> are numbers like \<open>5\<close>, and equal numbers are equal values). The
  driver stores an integer between \<open>-2^31\<close> and \<open>2^31 - 1\<close> as a 32-bit integer and every
  other number as a double. Integer and double arithmetic agree on the integers up to
  \<open>2^53\<close> in magnitude, and a stored integer gets beyond them only after more than \<open>2^50\<close>
  of the server's increments, so arithmetic on numbers is the double's throughout: the
  exact result, rounded to the nearest double (\<open>round_double\<close> below).

  A document is an association list from field names to values, in field order, as a
  JavaScript object is. \<open>fld d k\<close> is the property read \<open>d.k\<close>.
\<close>

datatype jsval = JNull | JBool bool | JNum rat | JStr string | JOid nat

type_synonym doc = "(string \<times> jsval) list"

definition fld :: "doc \<Rightarrow> string \<Rightarrow> jsval option" where
  "fld d k = map_of d k"

text \<open>JavaScript truthiness, as \<open>!x\<close> and \<open>if (x)\<close> read it.\<close>

fun truthy :: "jsval option \<Rightarrow> bool" where
  "truthy None = False"
| "truthy (Some JNull) = False"
| "truthy (Some (JBool b)) = b"
| "truthy (Some (JNum n)) = (n \<noteq> 0)"
| "truthy (Some (JStr s)) = (s \<noteq> [])"
| "truthy (Some (JOid i)) = True"

text \<open>
  Strict equality \<open>a === b\<close> between two values that come from different places (a stored
  document, a request body, a decoded token): primitives compare by value, and an
  ObjectId is an object, which is only ever equal to itself by reference.
\<close>

fun is_object :: "jsval option \<Rightarrow> bool" where
  "is_object (Some (JOid i)) = True"
| "is_object v = False"

definition strict_eq :: "jsval option \<Rightarrow> jsval option \<Rightarrow> bool" where
  "strict_eq a b = (a = b \<and> \<not> is_object a)"

section \<open>Double arithmetic\<close>

text \<open>
  IEEE 754 binary64, round to nearest, ties to even, on the rationals: a double has 53
  significant bits, so the result of an operation is the multiple of
  \<open>2^(e - 52)\<close> nearest to the exact value \<open>v\<close>, where \<open>2^e \<le> |v| < 2^(e + 1)\<close> (and the
  spacing is never finer than \<open>2^(-1074)\<close>). \<open>floor_log2\<close> is that \<open>e\<close> for a positive
  rational, read off the bit lengths of its numerator and denominator. The sums formed
  here add a small integer to a finite double and so never overflow.
\<close>

definition pow2 :: "int \<Rightarrow> rat" where
  "pow2 p = (if 0 \<le> p then 2 ^ nat p else 1 / 2 ^ nat (- p))"

definition floor_log2 :: "rat \<Rightarrow> int" where
  "floor_log2 q =
     (let (a, b) = quotient_of q; d = bitlen a - bitlen b
      in if b * 2 ^ nat d \<le> a * 2 ^ nat (- d) then d else d - 1)"

definition round_half_even :: "rat \<Rightarrow> int" where
  "round_half_even x =
     (let f = \<lfloor>x\<rfloor>; r = x - of_int f
      in if r < 1 / 2 then f else if 1 / 2 < r then f + 1 else if even f then f else f + 1)"

definition round_double :: "rat \<Rightarrow> rat" where
  "round_double v =
     (if v = 0 then 0
      else let u = pow2 (max (floor_log2 \<bar>v\<bar> - 52) (- 1074))
           in u * of_int (round_half_even (v / u)))"

section \<open>The document store\<close>

text \<open>
  A collection is the list of its documents in natural order. A filter \<open>{k: q}\<close> is an
  equality match on one field. The driver serialises \<open>undefined\<close> as \<open>null\<close>, and a
  \<open>null\<close> query value matches a document whose field is \<open>null\<close> or missing.
\<close>

datatype error = BSONError | WriteError

definition bson :: "jsval option \<Rightarrow> jsval" where
  "bson v = (case v of None \<Rightarrow> JNull | Some x \<Rightarrow> x)"

definition matches :: "string \<Rightarrow> jsval option \<Rightarrow> doc \<Rightarrow> bool" where
  "matches k q d = (case fld d k of None \<Rightarrow> bson q = JNull | Some v \<Rightarrow> v = bson q)"

definition findOne :: "doc list \<Rightarrow> string \<Rightarrow> jsval option \<Rightarrow> doc option" where
  "findOne c k q = find (matches k q) c"

definition countDocuments :: "doc list \<Rightarrow> string \<Rightarrow> jsval option \<Rightarrow> nat" where
  "countDocuments c k q = length (filter (matches k q) c)"

text \<open>
  \<open>insertOne\<close>: the driver gives the document a generated \<open>_id\<close> when it has none (or
  \<open>null\<close>); the server refuses a document whose \<open>_id\<close> is already in the collection.
  The result is the new collection and the inserted id.
\<close>

definition assign_id :: "doc \<Rightarrow> jsval \<Rightarrow> jsval" where
  "assign_id d gen = (case fld d ''_id'' of None \<Rightarrow> gen | Some JNull \<Rightarrow> gen | Some v \<Rightarrow> v)"

definition insertOne :: "doc list \<Rightarrow> doc \<Rightarrow> jsval \<Rightarrow> error + (doc list \<times> jsval)" where
  "insertOne c d gen =
     (let i = assign_id d gen in
      if list_ex (\<lambda>x. fld x ''_id'' = Some i) c then Inl WriteError
      else Inr (c @ [AList.update ''_id'' i d], i))"

text \<open>
  Update operators. \<open>$set\<close> writes the given fields; \<open>$inc\<close> adds to a numeric field in
  the field's arithmetic, creates a missing field with the increment, and is a write error
  on any other value.
\<close>

datatype update = Set "(string \<times> jsval option) list" | Inc string int

fun set_fields :: "(string \<times> jsval option) list \<Rightarrow> doc \<Rightarrow> doc" where
  "set_fields [] d = d"
| "set_fields ((k, v) # kvs) d = set_fields kvs (AList.update k (bson v) d)"

definition inc_field :: "string \<Rightarrow> int \<Rightarrow> doc \<Rightarrow> error + doc" where
  "inc_field k n d =
     (case fld d k of
        None \<Rightarrow> Inr (AList.update k (JNum (of_int n)) d)
      | Some (JNum m) \<Rightarrow> Inr (AList.update k (JNum (round_double (m + of_int n))) d)
      | Some v \<Rightarrow> Inl WriteError)"

fun apply_update :: "update \<Rightarrow> doc \<Rightarrow> error + doc" where
  "apply_update (Set kvs) d = Inr (set_fields kvs d)"
| "apply_update (Inc k n) d = inc_field k n d"

text \<open>\<open>updateOne\<close> and \<open>deleteOne\<close> act on the first document that matches the filter.\<close>

fun updateFirst :: "(doc \<Rightarrow> bool) \<Rightarrow> (doc \<Rightarrow> error + doc) \<Rightarrow> doc list \<Rightarrow> error + doc list" where
  "updateFirst P f [] = Inr []"
| "updateFirst P f (d # ds) =
     (if P d then (case f d of Inl e \<Rightarrow> Inl e | Inr d' \<Rightarrow> Inr (d' # ds))
      else (case updateFirst P f ds of Inl e \<Rightarrow> Inl e | Inr ds' \<Rightarrow> Inr (d # ds')))"

definition updateOne :: "doc list \<Rightarrow> string \<Rightarrow> jsval option \<Rightarrow> update \<Rightarrow> error + doc list" where
  "updateOne c k q u = updateFirst (matches k q) (apply_update u) c"

fun deleteFirst :: "(doc \<Rightarrow> bool) \<Rightarrow> doc list \<Rightarrow> doc list" where
  "deleteFirst P [] = []"
| "deleteFirst P (d # ds) = (if P d then ds else d # deleteFirst P ds)"

definition deleteOne :: "doc list \<Rightarrow> string \<Rightarrow> jsval option \<Rightarrow> doc list" where
  "deleteOne c k q = deleteFirst (matches k q) c"

definition matchedCount :: "doc list \<Rightarrow> string \<Rightarrow> jsval option \<Rightarrow> nat" where
  "matchedCount c k q = (case findOne c k q of None \<Rightarrow> 0 | Some d \<Rightarrow> 1)"

record db =
  users :: "doc list"
  posts :: "doc list"
  comments :: "doc list"
  reports :: "doc list"

section \<open>Requests, responses and the environment\<close>

text \<open>
  What a handler reads of a request: the \<open>jwtToken\<close> cookie, the route's path parameter,
  the JSON body and the peer address. What it can do: send a response with a status and a
  body, return without sending one, or throw (the promise of the async handler rejects;
  the handler has sent nothing). \<open>responded\<close> tells whether the handler sent a response.
\<close>

record request =
  jwtToken :: "string option"
  param :: string
  body :: doc
  ip :: "jsval option"

datatype payload =
    Message string
  | ErrorMsg string
  | InsertOneResult jsval
  | UserSaved jsval
  | UpdateResult nat
  | PostDeleted nat
  | ModifiedCount nat
  | Documents "doc list"

datatype outcome = Sent nat payload | NoResponse | Rejected error

fun responded :: "outcome \<Rightarrow> bool" where
  "responded (Sent st p) = True"
| "responded NoResponse = False"
| "responded (Rejected err) = False"

text \<open>
  The libraries and the clock are parameters of every handler:
  \<^item> \<open>ObjectId\<close> is the driver's constructor \<open>new ObjectId(x)\<close>, \<open>None\<close> when it throws;
  \<^item> \<open>jwt_verify\<close> is \<open>jwt.verify\<close> with the server's secret, \<open>None\<close> when it reports an
    error, otherwise the decoded payload;
  \<^item> \<open>now\<close> is \<open>new Date().toISOString()\<close>, \<open>new_id\<close> the id the driver generates for an
    inserted document, \<open>sort_desc\<close> the store's descending sort on a field.
\<close>

record env =
  ObjectId :: "jsval option \<Rightarrow> jsval option"
  jwt_verify :: "string \<Rightarrow> doc option"
  now :: string
  new_id :: jsval
  sort_desc :: "string \<Rightarrow> doc list \<Rightarrow> doc list"

section \<open>Middleware\<close>

text \<open>\<open>verifyJWT\<close>: \<open>Inl\<close> is the response it sends itself, \<open>Inr\<close> the decoded payload
  it attaches to the request before calling \<open>next()\<close>.\<close>

definition verifyJWT :: "env \<Rightarrow> request \<Rightarrow> outcome + doc" where
  "verifyJWT e r =
     (case jwtToken r of
        None \<Rightarrow> Inl (Sent 401 (Message ''Unauthorized access''))
      | Some token \<Rightarrow>
          if token = [] then Inl (Sent 401 (Message ''Unauthorized access''))
          else (case jwt_verify e token of
                  None \<Rightarrow> Inl (Sent 403 (Message ''Forbidden''))
                | Some decoded \<Rightarrow> Inr decoded))"

text \<open>\<open>verifyAdmin\<close>: \<open>Some\<close> is the response it sends itself, \<open>None\<close> is \<open>next()\<close>.\<close>

definition verifyAdmin :: "db \<Rightarrow> doc \<Rightarrow> outcome option" where
  "verifyAdmin s decoded =
     (let email = fld decoded ''email'' in
      if \<not> truthy email then Some (Sent 401 (Message ''Unauthorized access''))
      else (case findOne (users s) ''email'' email of
              None \<Rightarrow> Some (Sent 403 (Message ''Admin access only''))
            | Some user \<Rightarrow>
                if \<not> strict_eq (fld user ''role'') (Some (JStr ''admin''))
                then Some (Sent 403 (Message ''Admin access only''))
                else None))"

section \<open>Routes\<close>

subsection \<open>POST /posts\<close>

text \<open>The tier test of the handler: the ceiling applies to the two named tiers only.\<close>

definition limit_exceeded :: "doc \<Rightarrow> nat \<Rightarrow> bool" where
  "limit_exceeded member postCount =
     (if strict_eq (fld member ''memberShip'') (Some (JStr ''member'')) then postCount > 10
      else if strict_eq (fld member ''memberShip'') (Some (JStr ''non-member'')) then postCount > 5
      else False)"

definition post_posts :: "env \<Rightarrow> request \<Rightarrow> db \<Rightarrow> outcome \<times> db" where
  "post_posts e r s =
     (case verifyJWT e r of
        Inl out \<Rightarrow> (out, s)
      | Inr decoded \<Rightarrow>
          let postData = body r; decodedEmail = fld decoded ''email'' in
          if \<not> strict_eq decodedEmail (fld postData ''authorEmail'')
          then (Sent 403 (Message ''Forbidden: email mismatch''), s)
          else
            let postCount = countDocuments (posts s) ''authorEmail'' decodedEmail in
            (case findOne (users s) ''email'' decodedEmail of
               None \<Rightarrow> (Sent 403 (Message ''Forbidden: user not found''), s)
             | Some member \<Rightarrow>
                 if limit_exceeded member postCount
                 then (Sent 403 (Message ''Post limit exceeded''), s)
                 else
                   (case insertOne (posts s) postData (new_id e) of
                      Inl err \<Rightarrow> (Rejected err, s)
                    | Inr (ps, i) \<Rightarrow>
                        (case updateOne (users s) ''email'' decodedEmail (Inc ''postLimit'' (- 1)) of
                           Inl err \<Rightarrow> (Rejected err, s\<lparr>posts := ps\<rparr>)
                         | Inr us \<Rightarrow> (Sent 200 (InsertOneResult i), s\<lparr>posts := ps, users := us\<rparr>)))))"

subsection \<open>DELETE /posts/:id\<close>

definition delete_posts :: "env \<Rightarrow> request \<Rightarrow> db \<Rightarrow> outcome \<times> db" where
  "delete_posts e r s =
     (case verifyJWT e r of
        Inl out \<Rightarrow> (out, s)
      | Inr decoded \<Rightarrow>
          let postId = param r; decodedEmail = fld decoded ''email'' in
          (case ObjectId e (Some (JStr postId)) of
             None \<Rightarrow> (Rejected BSONError, s)
           | Some oid \<Rightarrow>
               (case findOne (posts s) ''_id'' (Some oid) of
                  None \<Rightarrow> (Sent 404 (Message ''Post not found''), s)
                | Some post \<Rightarrow>
                    if \<not> strict_eq (fld post ''authorEmail'') decodedEmail
                    then (Sent 403 (Message ''Forbidden: email mismatch''), s)
                    else
                      let ps = deleteOne (posts s) ''_id'' (Some oid) in
                      (case updateOne (users s) ''email'' decodedEmail (Inc ''postLimit'' 1) of
                         Inl err \<Rightarrow> (Rejected err, s\<lparr>posts := ps\<rparr>)
                       | Inr us \<Rightarrow>
                           (Sent 200 (PostDeleted (matchedCount (posts s) ''_id'' (Some oid))),
                            s\<lparr>posts := ps, users := us\<rparr>)))))"

subsection \<open>POST /users\<close>

text \<open>
  The handler of the full server. The object spread \<open>{...userData, lastSignInIp: req.ip}\<close>
  overwrites the field in place or appends it; an \<open>undefined\<close> address is stored as
  \<open>null\<close>. Both writes sit in a \<open>try\<close>: a failed update is only logged, a failed
  insert answers 500.
\<close>

definition updatedUserDoc :: "env \<Rightarrow> request \<Rightarrow> update" where
  "updatedUserDoc e r = Set [(''lastSignIn'', Some (JStr (now e))), (''lastSignInIp'', ip r)]"

definition post_users :: "env \<Rightarrow> request \<Rightarrow> db \<Rightarrow> outcome \<times> db" where
  "post_users e r s =
     (let userData = body r;
          emailExists = findOne (users s) ''email'' (fld userData ''email'');
          usernameExists = findOne (users s) ''username'' (fld userData ''username'')
      in
      if emailExists = None \<and> usernameExists \<noteq> None
      then (Sent 200 (ErrorMsg ''Username already exists''), s)
      else if emailExists \<noteq> None then
        (case updateOne (users s) ''email'' (fld userData ''email'') (updatedUserDoc e r) of
           Inl err \<Rightarrow> (Sent 200 (Message ''Email already exists''), s)
         | Inr us \<Rightarrow> (Sent 200 (Message ''Email already exists''), s\<lparr>users := us\<rparr>))
      else
        (let newUserData = AList.update ''lastSignInIp'' (bson (ip r)) userData in
         case insertOne (users s) newUserData (new_id e) of
           Inl err \<Rightarrow> (Sent 500 (ErrorMsg ''Failed to save user''), s)
         | Inr (us, i) \<Rightarrow> (Sent 201 (UserSaved i), s\<lparr>users := us\<rparr>)))"

text \<open>The earlier handler of \<open>src/index.js\<close>: any taken username is refused with 409.\<close>

definition index_post_users :: "env \<Rightarrow> request \<Rightarrow> db \<Rightarrow> outcome \<times> db" where
  "index_post_users e r s =
     (let userData = body r;
          emailExists = findOne (users s) ''email'' (fld userData ''email'');
          usernameExists = findOne (users s) ''username'' (fld userData ''username'')
      in
      if usernameExists \<noteq> None
      then (Sent 409 (ErrorMsg ''Username already exists''), s)
      else if emailExists \<noteq> None then
        (case updateOne (users s) ''email'' (fld userData ''email'') (updatedUserDoc e r) of
           Inl err \<Rightarrow> (Sent 200 (Message ''Email already exists''), s)
         | Inr us \<Rightarrow> (Sent 200 (Message ''Email already exists''), s\<lparr>users := us\<rparr>))
      else
        (let newUserData = AList.update ''lastSignInIp'' (bson (ip r)) userData in
         case insertOne (users s) newUserData (new_id e) of
           Inl err \<Rightarrow> (Sent 500 (ErrorMsg ''Failed to save user''), s)
         | Inr (us, i) \<Rightarrow> (Sent 201 (UserSaved i), s\<lparr>users := us\<rparr>)))"

subsection \<open>PATCH /post/vote/:postId\<close>

text \<open>The filter, with its ObjectId, is built before the vote type is looked at.\<close>

definition patch_post_vote :: "env \<Rightarrow> request \<Rightarrow> db \<Rightarrow> outcome \<times> db" where
  "patch_post_vote e r s =
     (let postId = param r; vtype = fld (body r) ''type'' in
      case ObjectId e (Some (JStr postId)) of
        None \<Rightarrow> (Rejected BSONError, s)
      | Some oid \<Rightarrow>
          if strict_eq vtype (Some (JStr ''up'')) then
            (case updateOne (posts s) ''_id'' (Some oid) (Inc ''upVote'' 1) of
               Inl err \<Rightarrow> (Rejected err, s)
             | Inr ps \<Rightarrow>
                 (Sent 200 (UpdateResult (matchedCount (posts s) ''_id'' (Some oid))),
                  s\<lparr>posts := ps\<rparr>))
          else if strict_eq vtype (Some (JStr ''down'')) then
            (case updateOne (posts s) ''_id'' (Some oid) (Inc ''downVote'' 1) of
               Inl err \<Rightarrow> (Rejected err, s)
             | Inr ps \<Rightarrow>
                 (Sent 200 (UpdateResult (matchedCount (posts s) ''_id'' (Some oid))),
                  s\<lparr>posts := ps\<rparr>))
          else (NoResponse, s))"

text \<open>
  The two voting branches differ in the counter only. \<open>vote_with\<close> is their common
  shape, for the counter \<open>g\<close>; the proofs go through it.
\<close>

definition vote_with :: "env \<Rightarrow> request \<Rightarrow> db \<Rightarrow> string \<Rightarrow> outcome \<times> db" where
  "vote_with e r s g =
     (case ObjectId e (Some (JStr (param r))) of
        None \<Rightarrow> (Rejected BSONError, s)
      | Some oid \<Rightarrow>
          (case updateOne (posts s) ''_id'' (Some oid) (Inc g 1) of
             Inl err \<Rightarrow> (Rejected err, s)
           | Inr ps \<Rightarrow>
               (Sent 200 (UpdateResult (matchedCount (posts s) ''_id'' (Some oid))),
                s\<lparr>posts := ps\<rparr>)))"

subsection \<open>GET /reports, POST /reports, PATCH /reports/action\<close>

definition get_reports :: "env \<Rightarrow> request \<Rightarrow> db \<Rightarrow> outcome \<times> db" where
  "get_reports e r s =
     (case verifyJWT e r of
        Inl out \<Rightarrow> (out, s)
      | Inr decoded \<Rightarrow>
          (case verifyAdmin s decoded of
             Some out \<Rightarrow> (out, s)
           | None \<Rightarrow> (Sent 200 (Documents (sort_desc e ''createdAt'' (reports s))), s)))"

text \<open>
  \<open>reportsData\<close> is the body with its \<open>commentId\<close> replaced by the ObjectId built from
  it. The handler's test \<open>!reportsData\<close> is on an object literal, which is never falsy,
  so that branch is not reachable and has no counterpart here.
\<close>

definition post_reports :: "env \<Rightarrow> request \<Rightarrow> db \<Rightarrow> outcome \<times> db" where
  "post_reports e r s =
     (let commentId = fld (body r) ''commentId'';
          restReportsData = AList.delete ''commentId'' (body r)
      in
      case ObjectId e commentId of
        None \<Rightarrow> (Rejected BSONError, s)
      | Some cid \<Rightarrow>
          let reportsData = AList.update ''commentId'' cid restReportsData in
          (case findOne (reports s) ''commentId'' (fld reportsData ''commentId'') of
             Some existingCommentReport \<Rightarrow>
               (Sent 200 (Message ''Report allready have on this comment''), s)
           | None \<Rightarrow>
               (case insertOne (reports s) reportsData (new_id e) of
                  Inl err \<Rightarrow> (Rejected err, s)
                | Inr (rs, i) \<Rightarrow> (Sent 200 (InsertOneResult i), s\<lparr>reports := rs\<rparr>))))"

definition patch_reports_action :: "env \<Rightarrow> request \<Rightarrow> db \<Rightarrow> outcome \<times> db" where
  "patch_reports_action e r s =
     (case verifyJWT e r of
        Inl out \<Rightarrow> (out, s)
      | Inr decoded \<Rightarrow>
          (case verifyAdmin s decoded of
             Some out \<Rightarrow> (out, s)
           | None \<Rightarrow>
               let action = fld (body r) ''action''; reportId = fld (body r) ''reportId'';
                   userEmail = fld (body r) ''userEmail''; commentId = fld (body r) ''commentId''
               in
               (case ObjectId e reportId of
                  None \<Rightarrow> (Rejected BSONError, s)
                | Some rid \<Rightarrow>
                    if strict_eq action (Some (JStr ''ignore'')) then
                      (case updateOne (reports s) ''_id'' (Some rid)
                              (Set [(''status'', Some (JStr ''resolved''))]) of
                         Inl err \<Rightarrow> (Rejected err, s)
                       | Inr rs \<Rightarrow> (Sent 200 (ModifiedCount 1), s\<lparr>reports := rs\<rparr>))
                    else if strict_eq action (Some (JStr ''warn'')) then
                      (case updateOne (users s) ''email'' userEmail
                              (Set [(''warning'', Some (JBool True))]) of
                         Inl err \<Rightarrow> (Rejected err, s)
                       | Inr us \<Rightarrow> (Sent 200 (ModifiedCount 1), s\<lparr>users := us\<rparr>))
                    else if strict_eq action (Some (JStr ''delete-comment'')) then
                      (case ObjectId e commentId of
                         None \<Rightarrow> (Rejected BSONError, s)
                       | Some cid \<Rightarrow>
                           let cs = deleteOne (comments s) ''_id'' (Some cid) in
                           (case ObjectId e reportId of
                              None \<Rightarrow> (Rejected BSONError, s\<lparr>comments := cs\<rparr>)
                            | Some rid' \<Rightarrow>
                                (Sent 200 (ModifiedCount 1),
                                 s\<lparr>comments := cs,
                                   reports := deleteOne (reports s) ''_id'' (Some rid')\<rparr>)))
                    else if strict_eq action (Some (JStr ''block'')) then
                      (case updateOne (users s) ''email'' userEmail
                              (Set [(''isBlocked'', Some (JBool True))]) of
                         Inl err \<Rightarrow> (Rejected err, s)
                       | Inr us \<Rightarrow> (Sent 200 (ModifiedCount 1), s\<lparr>users := us\<rparr>))
                    else (Sent 200 (ModifiedCount 1), s))))"

subsection \<open>The advisory counter\<close>

text \<open>The \<open>postLimit\<close> of the user record that the store finds for an email.\<close>

definition postLimit_of :: "db \<Rightarrow> jsval option \<Rightarrow> jsval option" where
  "postLimit_of s email =
     (case findOne (users s) ''email'' email of None \<Rightarrow> None | Some u \<Rightarrow> fld u ''postLimit'')"

section \<open>A concrete server\<close>

text \<open>
  A concrete environment and store, on which the theorems below are exercised.
  \<open>hexObjectId\<close> follows the driver's constructor: a string must be 24 hexadecimal digits
  (anything else throws), an ObjectId is taken as it is, and with no argument (or \<open>null\<close>
  or a number) a new id is generated. \<open>test_verify\<close> accepts four tokens. The
  collections are kept in creation order, so that the descending sort is the reversal.
  \<open>rich_forum\<close> is a store whose counters a client has set beyond \<open>2^53\<close>.
\<close>

definition hexdigit :: "char \<Rightarrow> nat option" where
  "hexdigit c =
     map_of [(CHR ''0'', 0), (CHR ''1'', 1), (CHR ''2'', 2), (CHR ''3'', 3), (CHR ''4'', 4),
             (CHR ''5'', 5), (CHR ''6'', 6), (CHR ''7'', 7), (CHR ''8'', 8), (CHR ''9'', 9),
             (CHR ''a'', 10), (CHR ''b'', 11), (CHR ''c'', 12), (CHR ''d'', 13),
             (CHR ''e'', 14), (CHR ''f'', 15), (CHR ''A'', 10), (CHR ''B'', 11),
             (CHR ''C'', 12), (CHR ''D'', 13), (CHR ''E'', 14), (CHR ''F'', 15)] c"

fun hex_acc :: "nat \<Rightarrow> string \<Rightarrow> nat option" where
  "hex_acc n [] = Some n"
| "hex_acc n (c # cs) =
     (case hexdigit c of None \<Rightarrow> None | Some d \<Rightarrow> hex_acc (16 * n + d) cs)"

definition hexObjectId :: "jsval \<Rightarrow> jsval option \<Rightarrow> jsval option" where
  "hexObjectId gen v =
     (case v of
        Some (JStr s) \<Rightarrow> if length s = 24 then map_option JOid (hex_acc 0 s) else None
      | Some (JOid i) \<Rightarrow> Some (JOid i)
      | Some (JBool b) \<Rightarrow> None
      | _ \<Rightarrow> Some gen)"

definition test_verify :: "string \<Rightarrow> doc option" where
  "test_verify t =
     (if t = ''tok-alice'' then Some [(''email'', JStr ''alice@hive.io'')]
      else if t = ''tok-bob'' then Some [(''email'', JStr ''bob@hive.io'')]
      else if t = ''tok-root'' then Some [(''email'', JStr ''root@hive.io'')]
      else if t = ''tok-carol'' then Some [(''email'', JStr ''carol@hive.io'')]
      else None)"

definition test_env :: env where
  "test_env =
     \<lparr>ObjectId = hexObjectId (JOid 4096), jwt_verify = test_verify,
      now = ''2025-07-01T09:30:00.000Z'', new_id = JOid 4096, sort_desc = (\<lambda>k. rev)\<rparr>"

definition req :: "string option \<Rightarrow> string \<Rightarrow> doc \<Rightarrow> request" where
  "req tok p b = \<lparr>jwtToken = tok, param = p, body = b, ip = Some (JStr ''10.0.0.7'')\<rparr>"

definition alice :: doc where
  "alice = [(''_id'', JOid 101), (''email'', JStr ''alice@hive.io''), (''username'', JStr ''alice''),
            (''memberShip'', JStr ''non-member''), (''postLimit'', JNum 5)]"

definition bob :: doc where
  "bob = [(''_id'', JOid 102), (''email'', JStr ''bob@hive.io''), (''username'', JStr ''bob''),
          (''memberShip'', JStr ''member''), (''postLimit'', JNum 10)]"

definition root :: doc where
  "root = [(''_id'', JOid 103), (''email'', JStr ''root@hive.io''), (''username'', JStr ''root''),
           (''role'', JStr ''admin''), (''memberShip'', JStr ''non-member''), (''postLimit'', JNum 5)]"

definition carol :: doc where
  "carol = [(''_id'', JOid 104), (''email'', JStr ''carol@hive.io''), (''username'', JStr ''carol''),
            (''postLimit'', JNum 5)]"

definition rich_forum :: db where
  "rich_forum =
     \<lparr>users = [[(''_id'', JOid 104), (''email'', JStr ''carol@hive.io''), (''username'', JStr ''carol''),
                (''postLimit'', JNum 9007199254740994)]],
      posts = [[(''_id'', JOid 1), (''authorEmail'', JStr ''alice@hive.io''),
                (''upVote'', JNum 10000000000000000), (''downVote'', JNum 0)]],
      comments = [], reports = []\<rparr>"

definition post_by :: "string \<Rightarrow> nat \<Rightarrow> doc" where
  "post_by a i = [(''_id'', JOid i), (''authorEmail'', JStr a), (''upVote'', JNum 3),
                  (''downVote'', JNum 1)]"

definition forum :: db where
  "forum =
     \<lparr>users = [alice, bob, root, carol],
      posts = map (post_by ''alice@hive.io'') [1, 2, 3, 4, 5, 6] @
              map (post_by ''bob@hive.io'') [11, 12, 13, 14, 15, 16, 17, 18, 19, 20, 21] @
              map (post_by ''carol@hive.io'') [31, 32, 33, 34, 35, 36, 37],
      comments = [[(''_id'', JOid 201), (''postId'', JOid 1), (''text'', JStr ''first'')]],
      reports = [[(''_id'', JOid 301), (''commentId'', JOid 201), (''reason'', JStr ''spam'')]]\<rparr>"

section \<open>Facts about double arithmetic\<close>

text \<open>Rounding leaves the integers up to \<open>2^53\<close> in magnitude as they are; beyond, odd
  integers fall on a tie.\<close>

lemma round_half_even_int: "round_half_even (of_int j) = j"
  by (simp add: round_half_even_def)

lemma floor_log2_int:
  assumes "0 < a"
  shows "floor_log2 (of_int a) = bitlen a - 1"
proof -
  from assms have b1: "1 \<le> bitlen a"
    by (simp add: bitlen_alt_def)
  have "bitlen 1 = 1"
    by (simp add: bitlen_alt_def)
  moreover have "(2::int) ^ nat (bitlen a - 1) \<le> a"
    using bitlen_bounds[OF assms] by simp
  ultimately show ?thesis
    using b1 by (simp add: floor_log2_def Let_def)
qed

lemma round_double_int:
  assumes "\<bar>i\<bar> \<le> 2 ^ 53"
  shows "round_double (of_int i) = of_int i"
proof (cases "i = 0")
  case True
  then show ?thesis by (simp add: round_double_def)
next
  case False
  define a where "a = \<bar>i\<bar>"
  define d where "d = bitlen a - 1"
  from False have a0: "0 < a" by (simp add: a_def)
  have d0: "0 \<le> d"
    using a0 by (simp add: d_def bitlen_alt_def)
  have lo: "2 ^ nat d \<le> a"
    using bitlen_bounds[OF a0] by (simp add: d_def)
  have d53: "nat d \<le> 53"
  proof (rule power_le_imp_le_exp[of "2::int"])
    show "(1::int) < 2" by simp
    show "(2::int) ^ nat d \<le> 2 ^ 53"
      using lo assms unfolding a_def by (rule order_trans)
  qed
  have fl: "floor_log2 \<bar>rat_of_int i\<bar> = d"
    using floor_log2_int[OF a0] by (simp add: a_def d_def)
  have "\<exists>j. rat_of_int i / pow2 (d - 52) = of_int j"
  proof (cases "d \<le> 52")
    case True
    then have "rat_of_int i / pow2 (d - 52) = of_int (i * 2 ^ nat (52 - d))"
      by (simp add: pow2_def)
    then show ?thesis ..
  next
    case False
    with d53 d0 have d: "d = 53" by simp
    with lo assms have "a = 2 ^ 53"
      by (simp add: a_def)
    then have "i = 2 ^ 53 \<or> i = - (2 ^ 53)"
      by (auto simp: a_def abs_if split: if_splits)
    then have "rat_of_int i / pow2 (d - 52) = of_int (i div 2)"
      by (auto simp: d pow2_def)
    then show ?thesis ..
  qed
  then obtain j where j: "rat_of_int i / pow2 (d - 52) = of_int j" ..
  have pz: "pow2 (d - 52) \<noteq> 0"
    by (simp add: pow2_def)
  have mx: "max (d - 52) (- 1074) = d - 52"
    using d0 by simp
  have "round_double (of_int i) = pow2 (d - 52) * of_int j"
    using False by (simp add: round_double_def fl mx Let_def j round_half_even_int)
  also have "\<dots> = of_int i"
    using j pz by (simp add: field_simps)
  finally show ?thesis .
qed

lemma round_double_numeral [simp]:
  "(numeral w :: int) \<le> 2 ^ 53 \<Longrightarrow> round_double (numeral w) = numeral w"
  using round_double_int[of "numeral w"] by simp

lemma round_double_neg_numeral [simp]:
  "(numeral w :: int) \<le> 2 ^ 53 \<Longrightarrow> round_double (- numeral w) = - numeral w"
  using round_double_int[of "- numeral w"] by simp

lemma round_double_0 [simp]: "round_double 0 = 0"
  by (simp add: round_double_def)

lemma round_double_1 [simp]: "round_double 1 = 1"
  using round_double_int[of 1] by simp

lemma step_exact:
  assumes "\<bar>n\<bar> < (2::int) ^ 53"
  shows "round_double (of_int n + of_int (- 1)) = of_int (n - 1)"
    and "round_double (of_int n + of_int 1) = of_int (n + 1)"
    and "round_double (of_int (n - 1) + of_int 1) = of_int n"
proof -
  from assms have "\<bar>n - 1\<bar> \<le> 2 ^ 53" "\<bar>n + 1\<bar> \<le> 2 ^ 53" "\<bar>n\<bar> \<le> 2 ^ 53"
    by simp_all
  from round_double_int[OF this(1)] round_double_int[OF this(2)] round_double_int[OF this(3)]
  show "round_double (of_int n + of_int (- 1)) = of_int (n - 1)"
    and "round_double (of_int n + of_int 1) = of_int (n + 1)"
    and "round_double (of_int (n - 1) + of_int 1) = of_int n"
    by simp_all
qed

lemma round_double_ties:
  "round_double 9007199254740993 = 9007199254740992"
  "round_double 10000000000000001 = 10000000000000000"
  by code_simp+

section \<open>Facts about the store\<close>

lemmas fixture_defs = test_env_def req_def forum_def alice_def bob_def root_def carol_def
  post_by_def test_verify_def hexObjectId_def hexdigit_def

lemmas store_defs = findOne_def countDocuments_def matches_def fld_def bson_def strict_eq_def
  verifyJWT_def

lemma fld_update: "fld (AList.update k v d) k' = (if k' = k then Some v else fld d k')"
  by (simp add: fld_def update_conv')

lemma matches_update_other: "k \<noteq> k' \<Longrightarrow> matches k q (AList.update k' v d) = matches k q d"
  by (simp add: matches_def fld_update)

lemma findOne_first:
  "findOne c k q = Some u \<Longrightarrow>
     \<exists>i<length c. c ! i = u \<and> matches k q u \<and> (\<forall>j<i. \<not> matches k q (c ! j))"
  unfolding findOne_def by (auto simp: find_Some_iff)

lemma findOne_None: "findOne c k q = None \<longleftrightarrow> \<not> list_ex (matches k q) c"
  unfolding findOne_def by (auto simp: find_None_iff list_ex_iff)

lemma deleteFirst_some:
  "find P xs = Some u \<Longrightarrow>
     \<exists>i<length xs. xs ! i = u \<and> (\<forall>j<i. \<not> P (xs ! j)) \<and> deleteFirst P xs = take i xs @ drop (Suc i) xs"
proof (induction xs)
  case Nil
  then show ?case by simp
next
  case (Cons x xs)
  show ?case
  proof (cases "P x")
    case True
    with Cons.prems have "x = u" by simp
    with True show ?thesis by (intro exI[of _ 0]) simp
  next
    case False
    with Cons.prems have "find P xs = Some u" by simp
    from Cons.IH[OF this] obtain i where
      i: "i < length xs" "xs ! i = u" "\<forall>j<i. \<not> P (xs ! j)" "deleteFirst P xs = take i xs @ drop (Suc i) xs"
      by blast
    have "\<forall>j<Suc i. \<not> P ((x # xs) ! j)"
      using False i(3) by (auto simp: less_Suc_eq_0_disj)
    with i False show ?thesis by (intro exI[of _ "Suc i"]) simp
  qed
qed

lemma strict_eq_str [simp]: "strict_eq v (Some (JStr x)) \<longleftrightarrow> v = Some (JStr x)"
  by (auto simp: strict_eq_def)

lemma strict_eq_sym: "strict_eq a b \<Longrightarrow> strict_eq b a"
  by (auto simp: strict_eq_def)

lemma updateFirst_at:
  "k < length xs \<Longrightarrow> P (xs ! k) \<Longrightarrow> (\<forall>j<k. \<not> P (xs ! j)) \<Longrightarrow> f (xs ! k) = Inr d \<Longrightarrow>
     updateFirst P f xs = Inr (xs[k := d])"
proof (induction xs arbitrary: k)
  case Nil
  then show ?case by simp
next
  case (Cons x xs)
  show ?case
  proof (cases k)
    case 0
    with Cons.prems show ?thesis by simp
  next
    case (Suc k')
    with Cons.prems have nx: "\<not> P x" by auto
    have "\<forall>j<k'. \<not> P (xs ! j)"
      using Cons.prems(3) Suc by auto
    with Cons.IH[of k'] Cons.prems Suc have "updateFirst P f xs = Inr (xs[k' := d])"
      by simp
    with nx Suc show ?thesis by simp
  qed
qed

lemma find_at:
  "k < length xs \<Longrightarrow> P (xs ! k) \<Longrightarrow> (\<forall>j<k. \<not> P (xs ! j)) \<Longrightarrow> find P xs = Some (xs ! k)"
  by (auto simp: find_Some_iff)

lemma findOne_at:
  "k < length c \<Longrightarrow> matches f q (c ! k) \<Longrightarrow> (\<forall>j<k. \<not> matches f q (c ! j)) \<Longrightarrow>
     findOne c f q = Some (c ! k)"
  unfolding findOne_def by (rule find_at)

lemma inc_field_num:
  "fld u f = Some (JNum n) \<Longrightarrow>
     inc_field f m u = Inr (AList.update f (JNum (round_double (n + of_int m))) u)"
  by (simp add: inc_field_def)

lemma inc_field_missing:
  "fld u f = None \<Longrightarrow> inc_field f m u = Inr (AList.update f (JNum (of_int m)) u)"
  by (simp add: inc_field_def)

lemma updateOne_inc_at:
  assumes "k < length c" "matches f q (c ! k)" "\<forall>j<k. \<not> matches f q (c ! j)"
    and "fld (c ! k) g = Some (JNum n)"
  shows "updateOne c f q (Inc g m)
           = Inr (c[k := AList.update g (JNum (round_double (n + of_int m))) (c ! k)])"
  unfolding updateOne_def
  by (rule updateFirst_at) (use assms in \<open>simp_all add: inc_field_num\<close>)

lemma updateOne_inc_missing_at:
  assumes "k < length c" "matches f q (c ! k)" "\<forall>j<k. \<not> matches f q (c ! j)"
    and "fld (c ! k) g = None"
  shows "updateOne c f q (Inc g m) = Inr (c[k := AList.update g (JNum (of_int m)) (c ! k)])"
  unfolding updateOne_def
  by (rule updateFirst_at) (use assms in \<open>simp_all add: inc_field_missing\<close>)

lemma update_same: "fld d k = Some v \<Longrightarrow> AList.update k v d = d"
  by (simp add: fld_def update_triv)

lemma deleteFirst_snoc:
  "\<forall>x\<in>set xs. \<not> P x \<Longrightarrow> P d \<Longrightarrow> deleteFirst P (xs @ [d]) = xs"
  by (induction xs) auto

lemma find_snoc:
  "\<forall>x\<in>set xs. \<not> P x \<Longrightarrow> P d \<Longrightarrow> find P (xs @ [d]) = Some d"
  by (induction xs) auto

lemma updateFirst_length: "updateFirst P f xs = Inr ys \<Longrightarrow> length ys = length xs"
  by (induction xs arbitrary: ys) (auto split: if_splits sum.splits)

lemma updateOne_length: "updateOne c k q u = Inr c' \<Longrightarrow> length c' = length c"
  unfolding updateOne_def by (rule updateFirst_length)

lemma updateOne_set_at:
  assumes "k < length c" "matches f q (c ! k)" "\<forall>j<k. \<not> matches f q (c ! j)"
  shows "updateOne c f q (Set kvs) = Inr (c[k := set_fields kvs (c ! k)])"
  unfolding updateOne_def
  by (rule updateFirst_at) (use assms in simp_all)

lemma fld_delete: "fld (AList.delete k d) k' = (if k' = k then None else fld d k')"
  by (simp add: fld_def delete_conv')

lemma updateFirst_frame:
  assumes "\<And>d d'. f d = Inr d' \<Longrightarrow> obs d' = obs d"
    and "updateFirst P f xs = Inr ys"
  shows "map obs ys = map obs xs"
  using assms(2)
proof (induction xs arbitrary: ys)
  case Nil
  then show ?case by simp
next
  case (Cons x xs)
  show ?case
  proof (cases "P x")
    case True
    with Cons.prems obtain d' where "f x = Inr d'" "ys = d' # xs"
      by (auto split: sum.splits)
    with assms(1) show ?thesis by simp
  next
    case False
    with Cons.prems obtain ds' where "updateFirst P f xs = Inr ds'" "ys = x # ds'"
      by (auto split: sum.splits)
    with Cons.IH show ?thesis by simp
  qed
qed

lemma inc_field_frame: "inc_field g m d = Inr d' \<Longrightarrow> g \<noteq> h \<Longrightarrow> fld d' h = fld d h"
  by (auto simp: inc_field_def fld_update split: option.splits jsval.splits)

lemma updateOne_inc_frame:
  assumes "updateOne c f q (Inc g m) = Inr c'" and "g \<noteq> h"
  shows "map (\<lambda>d. fld d h) c' = map (\<lambda>d. fld d h) c"
proof (rule updateFirst_frame)
  show "updateFirst (matches f q) (apply_update (Inc g m)) c = Inr c'"
    using assms(1) by (simp add: updateOne_def)
next
  fix d d'
  assume "apply_update (Inc g m) d = Inr d'"
  with assms(2) show "fld d' h = fld d h"
    by (simp add: inc_field_frame)
qed

section \<open>Ownership on post deletion\<close>

text \<open>
  Claim C1. A delete request that passed the authentication gate with identity
  \<open>D = decoded.email\<close> and whose path parameter denotes the post id \<open>P\<close>:
  \<^item> answers 404 \<open>Post not found\<close> and leaves the store alone when no stored post has id \<open>P\<close>;
  \<^item> answers 403 \<open>Forbidden: email mismatch\<close> and leaves the store alone when the stored
    post's \<open>authorEmail\<close> is not strictly equal to \<open>D\<close>;
  \<^item> removes exactly the first stored post with id \<open>P\<close> when its \<open>authorEmail\<close> is \<open>D\<close>;
  \<^item> changes the post collection in no other case;
  \<^item> never reads the request body: the author is the stored one.
  (A path parameter that the ObjectId constructor refuses makes the handler throw before
  it looks anything up.)
\<close>

theorem delete_posts_ownership:
  assumes "verifyJWT e r = Inr decoded"
    and "ObjectId e (Some (JStr (param r))) = Some P"
  shows "(findOne (posts s) ''_id'' (Some P) = None \<longrightarrow>
            delete_posts e r s = (Sent 404 (Message ''Post not found''), s)) \<and>
         (\<forall>post. findOne (posts s) ''_id'' (Some P) = Some post \<and>
                 \<not> strict_eq (fld post ''authorEmail'') (fld decoded ''email'') \<longrightarrow>
            delete_posts e r s = (Sent 403 (Message ''Forbidden: email mismatch''), s)) \<and>
         (\<forall>post. findOne (posts s) ''_id'' (Some P) = Some post \<and>
                 strict_eq (fld post ''authorEmail'') (fld decoded ''email'') \<longrightarrow>
            (\<exists>i<length (posts s). posts s ! i = post \<and>
                (\<forall>j<i. \<not> matches ''_id'' (Some P) (posts s ! j)) \<and>
                posts (snd (delete_posts e r s)) = take i (posts s) @ drop (Suc i) (posts s))) \<and>
         (posts (snd (delete_posts e r s)) \<noteq> posts s \<longrightarrow>
            (\<exists>post. findOne (posts s) ''_id'' (Some P) = Some post \<and>
                strict_eq (fld post ''authorEmail'') (fld decoded ''email''))) \<and>
         (\<forall>b. delete_posts e (r\<lparr>body := b\<rparr>) s = delete_posts e r s)"
proof (intro conjI allI impI)
  assume "findOne (posts s) ''_id'' (Some P) = None"
  with assms show "delete_posts e r s = (Sent 404 (Message ''Post not found''), s)"
    by (simp add: delete_posts_def)
next
  fix post
  assume "findOne (posts s) ''_id'' (Some P) = Some post \<and>
          \<not> strict_eq (fld post ''authorEmail'') (fld decoded ''email'')"
  with assms show "delete_posts e r s = (Sent 403 (Message ''Forbidden: email mismatch''), s)"
    by (simp add: delete_posts_def)
next
  fix post
  assume a: "findOne (posts s) ''_id'' (Some P) = Some post \<and>
             strict_eq (fld post ''authorEmail'') (fld decoded ''email'')"
  then have "find (matches ''_id'' (Some P)) (posts s) = Some post"
    by (simp add: findOne_def)
  from deleteFirst_some[OF this] obtain i where
    i: "i < length (posts s)" "posts s ! i = post"
       "\<forall>j<i. \<not> matches ''_id'' (Some P) (posts s ! j)"
       "deleteOne (posts s) ''_id'' (Some P) = take i (posts s) @ drop (Suc i) (posts s)"
    unfolding deleteOne_def by blast
  have "posts (snd (delete_posts e r s)) = deleteOne (posts s) ''_id'' (Some P)"
    using assms a by (simp add: delete_posts_def Let_def split: sum.split)
  with i show "\<exists>i<length (posts s). posts s ! i = post \<and>
                (\<forall>j<i. \<not> matches ''_id'' (Some P) (posts s ! j)) \<and>
                posts (snd (delete_posts e r s)) = take i (posts s) @ drop (Suc i) (posts s)"
    by auto
next
  assume "posts (snd (delete_posts e r s)) \<noteq> posts s"
  with assms show "\<exists>post. findOne (posts s) ''_id'' (Some P) = Some post \<and>
                strict_eq (fld post ''authorEmail'') (fld decoded ''email'')"
    by (auto simp: delete_posts_def Let_def split: option.splits if_splits)
next
  fix b
  from assms(1) have "verifyJWT e (r\<lparr>body := b\<rparr>) = verifyJWT e r"
    by (simp add: verifyJWT_def)
  then show "delete_posts e (r\<lparr>body := b\<rparr>) s = delete_posts e r s"
    by (simp add: delete_posts_def split: sum.split)
qed

theorem delete_posts_ownership_witness:
  "delete_posts test_env (req (Some ''tok-alice'') ''0000000000000000000003e7'' []) forum
     = (Sent 404 (Message ''Post not found''), forum) \<and>
   delete_posts test_env (req (Some ''tok-bob'') ''000000000000000000000002'' []) forum
     = (Sent 403 (Message ''Forbidden: email mismatch''), forum) \<and>
   posts (snd (delete_posts test_env (req (Some ''tok-alice'') ''000000000000000000000002'' []) forum))
     = post_by ''alice@hive.io'' 1 # drop 2 (posts forum)"
proof (intro conjI)
  have nf: "findOne (posts forum) ''_id'' (Some (JOid 999)) = None"
    by (simp add: fixture_defs store_defs)
  have "verifyJWT test_env (req (Some ''tok-alice'') ''0000000000000000000003e7'' [])
          = Inr [(''email'', JStr ''alice@hive.io'')]"
    by (simp add: fixture_defs store_defs)
  moreover have "ObjectId test_env (Some (JStr (param (req (Some ''tok-alice'') ''0000000000000000000003e7'' []))))
          = Some (JOid 999)"
    by (simp add: fixture_defs)
  ultimately show "delete_posts test_env (req (Some ''tok-alice'') ''0000000000000000000003e7'' []) forum
     = (Sent 404 (Message ''Post not found''), forum)"
    using delete_posts_ownership[of test_env _ _ "JOid 999" forum] nf by blast
next
  have f: "findOne (posts forum) ''_id'' (Some (JOid 2)) = Some (post_by ''alice@hive.io'' 2)"
    by (simp add: fixture_defs store_defs)
  have ne: "\<not> strict_eq (fld (post_by ''alice@hive.io'' 2) ''authorEmail'')
                (fld [(''email'', JStr ''bob@hive.io'')] ''email'')"
    by (simp add: fixture_defs store_defs)
  have "verifyJWT test_env (req (Some ''tok-bob'') ''000000000000000000000002'' [])
          = Inr [(''email'', JStr ''bob@hive.io'')]"
    by (simp add: fixture_defs store_defs)
  moreover have "ObjectId test_env (Some (JStr (param (req (Some ''tok-bob'') ''000000000000000000000002'' []))))
          = Some (JOid 2)"
    by (simp add: fixture_defs)
  ultimately show "delete_posts test_env (req (Some ''tok-bob'') ''000000000000000000000002'' []) forum
     = (Sent 403 (Message ''Forbidden: email mismatch''), forum)"
    using delete_posts_ownership[of test_env _ _ "JOid 2" forum] f ne by blast
next
  show "posts (snd (delete_posts test_env (req (Some ''tok-alice'') ''000000000000000000000002'' []) forum))
     = post_by ''alice@hive.io'' 1 # drop 2 (posts forum)"
    by (simp add: delete_posts_def fixture_defs store_defs deleteOne_def updateOne_def inc_field_def
          matchedCount_def Let_def)
qed

section \<open>The membership quota on post creation\<close>

text \<open>
  Claim C2. A post-creation request that passed the authentication gate and declares the
  acting identity as its author is refused with 403 \<open>Post limit exceeded\<close> when the
  author's user record has tier \<open>non-member\<close> and more than 5 posts are counted for the
  author, or tier \<open>member\<close> and more than 10. The store is returned as it was: no post is
  inserted and no \<open>postLimit\<close> is decremented. In the concrete server a non-member with 6
  posts is refused on the 7th attempt and a member with 11 posts on the 12th.
\<close>

theorem post_posts_quota:
  assumes "verifyJWT e r = Inr decoded"
    and "strict_eq (fld decoded ''email'') (fld (body r) ''authorEmail'')"
    and "findOne (users s) ''email'' (fld decoded ''email'') = Some member"
    and "(fld member ''memberShip'' = Some (JStr ''non-member'') \<and>
            countDocuments (posts s) ''authorEmail'' (fld decoded ''email'') > 5) \<or>
         (fld member ''memberShip'' = Some (JStr ''member'') \<and>
            countDocuments (posts s) ''authorEmail'' (fld decoded ''email'') > 10)"
  shows "post_posts e r s = (Sent 403 (Message ''Post limit exceeded''), s)"
proof -
  have "limit_exceeded member (countDocuments (posts s) ''authorEmail'' (fld decoded ''email''))"
    using assms(4) by (auto simp: limit_exceeded_def strict_eq_def)
  then show ?thesis
    using assms(1-3) by (simp add: post_posts_def Let_def)
qed

theorem post_posts_quota_witness:
  "countDocuments (posts forum) ''authorEmail'' (Some (JStr ''alice@hive.io'')) = 6 \<and>
   post_posts test_env
     (req (Some ''tok-alice'') [] [(''authorEmail'', JStr ''alice@hive.io''), (''title'', JStr ''seventh'')])
     forum = (Sent 403 (Message ''Post limit exceeded''), forum) \<and>
   countDocuments (posts forum) ''authorEmail'' (Some (JStr ''bob@hive.io'')) = 11 \<and>
   post_posts test_env
     (req (Some ''tok-bob'') [] [(''authorEmail'', JStr ''bob@hive.io''), (''title'', JStr ''twelfth'')])
     forum = (Sent 403 (Message ''Post limit exceeded''), forum)"
proof (intro conjI)
  show "post_posts test_env
     (req (Some ''tok-alice'') [] [(''authorEmail'', JStr ''alice@hive.io''), (''title'', JStr ''seventh'')])
     forum = (Sent 403 (Message ''Post limit exceeded''), forum)"
    by (rule post_posts_quota[where decoded = "[(''email'', JStr ''alice@hive.io'')]" and member = alice])
       (simp_all add: fixture_defs store_defs)
  show "post_posts test_env
     (req (Some ''tok-bob'') [] [(''authorEmail'', JStr ''bob@hive.io''), (''title'', JStr ''twelfth'')])
     forum = (Sent 403 (Message ''Post limit exceeded''), forum)"
    by (rule post_posts_quota[where decoded = "[(''email'', JStr ''bob@hive.io'')]" and member = bob])
       (simp_all add: fixture_defs store_defs)
qed (simp_all add: fixture_defs store_defs)

section \<open>The admin gate on the report listing\<close>

text \<open>
  Claim C3. For \<open>GET /reports\<close>, behind \<open>verifyJWT\<close> and \<open>verifyAdmin\<close>:
  \<^item> a request with no \<open>jwtToken\<close> cookie (or an empty one) is answered 401;
  \<^item> a request whose token verifies and carries an email identity is answered 403
    \<open>Admin access only\<close> when no user record has that email, or when the record found has
    a role other than \<open>admin\<close>;
  \<^item> the listing is sent exactly when the token verifies, carries an email identity, and
    the user record found for it has role \<open>admin\<close>.
  The store is never changed. (A token that verifies but carries no email, or an empty
  one, has no identity to look up: \<open>verifyAdmin\<close> answers it 401.)
\<close>

theorem get_reports_admin_only:
  "((jwtToken r = None \<or> jwtToken r = Some []) \<longrightarrow>
      get_reports e r s = (Sent 401 (Message ''Unauthorized access''), s)) \<and>
   (\<forall>t decoded. jwtToken r = Some t \<and> t \<noteq> [] \<and> jwt_verify e t = Some decoded \<and>
        truthy (fld decoded ''email'') \<and>
        (findOne (users s) ''email'' (fld decoded ''email'') = None \<or>
         (\<exists>u. findOne (users s) ''email'' (fld decoded ''email'') = Some u \<and>
              fld u ''role'' \<noteq> Some (JStr ''admin''))) \<longrightarrow>
      get_reports e r s = (Sent 403 (Message ''Admin access only''), s)) \<and>
   ((\<exists>docs. fst (get_reports e r s) = Sent 200 (Documents docs)) \<longleftrightarrow>
    (\<exists>t decoded u. jwtToken r = Some t \<and> t \<noteq> [] \<and> jwt_verify e t = Some decoded \<and>
        truthy (fld decoded ''email'') \<and>
        findOne (users s) ''email'' (fld decoded ''email'') = Some u \<and>
        fld u ''role'' = Some (JStr ''admin''))) \<and>
   (\<forall>t decoded. jwtToken r = Some t \<and> t \<noteq> [] \<and> jwt_verify e t = Some decoded \<and>
        \<not> truthy (fld decoded ''email'') \<longrightarrow>
      get_reports e r s = (Sent 401 (Message ''Unauthorized access''), s)) \<and>
   snd (get_reports e r s) = s"
proof (intro conjI allI impI)
  assume "jwtToken r = None \<or> jwtToken r = Some []"
  then show "get_reports e r s = (Sent 401 (Message ''Unauthorized access''), s)"
    by (auto simp: get_reports_def verifyJWT_def)
next
  fix t decoded
  assume "jwtToken r = Some t \<and> t \<noteq> [] \<and> jwt_verify e t = Some decoded \<and>
        truthy (fld decoded ''email'') \<and>
        (findOne (users s) ''email'' (fld decoded ''email'') = None \<or>
         (\<exists>u. findOne (users s) ''email'' (fld decoded ''email'') = Some u \<and>
              fld u ''role'' \<noteq> Some (JStr ''admin'')))"
  then show "get_reports e r s = (Sent 403 (Message ''Admin access only''), s)"
    by (auto simp: get_reports_def verifyJWT_def verifyAdmin_def Let_def)
next
  show "(\<exists>docs. fst (get_reports e r s) = Sent 200 (Documents docs)) \<longleftrightarrow>
    (\<exists>t decoded u. jwtToken r = Some t \<and> t \<noteq> [] \<and> jwt_verify e t = Some decoded \<and>
        truthy (fld decoded ''email'') \<and>
        findOne (users s) ''email'' (fld decoded ''email'') = Some u \<and>
        fld u ''role'' = Some (JStr ''admin''))"
    by (auto simp: get_reports_def verifyJWT_def verifyAdmin_def Let_def
             split: option.splits if_splits)
next
  fix t decoded
  assume "jwtToken r = Some t \<and> t \<noteq> [] \<and> jwt_verify e t = Some decoded \<and>
        \<not> truthy (fld decoded ''email'')"
  then show "get_reports e r s = (Sent 401 (Message ''Unauthorized access''), s)"
    by (auto simp: get_reports_def verifyJWT_def verifyAdmin_def Let_def)
next
  show "snd (get_reports e r s) = s"
    by (auto simp: get_reports_def verifyJWT_def verifyAdmin_def Let_def
             split: option.splits if_splits)
qed

theorem get_reports_admin_only_witness:
  "get_reports test_env (req None [] []) forum = (Sent 401 (Message ''Unauthorized access''), forum) \<and>
   get_reports test_env (req (Some ''tok-alice'') [] []) forum
     = (Sent 403 (Message ''Admin access only''), forum) \<and>
   get_reports test_env (req (Some ''tok-alice'') [] []) (forum\<lparr>users := [bob, root]\<rparr>)
     = (Sent 403 (Message ''Admin access only''), forum\<lparr>users := [bob, root]\<rparr>) \<and>
   fst (get_reports test_env (req (Some ''tok-root'') [] []) forum)
     = Sent 200 (Documents [[(''_id'', JOid 301), (''commentId'', JOid 201), (''reason'', JStr ''spam'')]])"
proof (intro conjI)
  show "get_reports test_env (req None [] []) forum = (Sent 401 (Message ''Unauthorized access''), forum)"
    using get_reports_admin_only[of "req None [] []" test_env forum]
    by (simp add: req_def)
next
  have "findOne (users forum) ''email'' (Some (JStr ''alice@hive.io'')) = Some alice"
    and "fld alice ''role'' \<noteq> Some (JStr ''admin'')"
    by (simp_all add: fixture_defs store_defs)
  moreover have "jwt_verify test_env ''tok-alice'' = Some [(''email'', JStr ''alice@hive.io'')]"
    by (simp add: fixture_defs)
  ultimately show "get_reports test_env (req (Some ''tok-alice'') [] []) forum
     = (Sent 403 (Message ''Admin access only''), forum)"
    using get_reports_admin_only[of "req (Some ''tok-alice'') [] []" test_env forum]
    by (auto simp: req_def fld_def)
next
  have "findOne (users (forum\<lparr>users := [bob, root]\<rparr>)) ''email'' (Some (JStr ''alice@hive.io'')) = None"
    by (simp add: fixture_defs store_defs)
  moreover have "jwt_verify test_env ''tok-alice'' = Some [(''email'', JStr ''alice@hive.io'')]"
    by (simp add: fixture_defs)
  ultimately show "get_reports test_env (req (Some ''tok-alice'') [] []) (forum\<lparr>users := [bob, root]\<rparr>)
     = (Sent 403 (Message ''Admin access only''), forum\<lparr>users := [bob, root]\<rparr>)"
    using get_reports_admin_only[of "req (Some ''tok-alice'') [] []" test_env "forum\<lparr>users := [bob, root]\<rparr>"]
    by (auto simp: req_def fld_def)
next
  show "fst (get_reports test_env (req (Some ''tok-root'') [] []) forum)
     = Sent 200 (Documents [[(''_id'', JOid 301), (''commentId'', JOid 201), (''reason'', JStr ''spam'')]])"
    by (simp add: get_reports_def verifyAdmin_def fixture_defs store_defs Let_def)
qed

section \<open>Registration with a taken username\<close>

text \<open>
  Claim C4, as the code has it. When some user record has the submitted username, no
  handler adds a user record. The handler of the full server refuses the registration
  with \<open>Username already exists\<close> (status 200, store untouched) only when no record has
  the submitted email; when a record has it, the request is treated as a returning
  sign-in and answered \<open>Email already exists\<close>. The earlier handler of \<open>src/index.js\<close>
  refuses it with 409 in both cases, store untouched.
\<close>

theorem post_users_taken_username:
  assumes "findOne (users s) ''username'' (fld (body r) ''username'') = Some w"
  shows "length (users (snd (post_users e r s))) = length (users s) \<and>
         (findOne (users s) ''email'' (fld (body r) ''email'') = None \<longrightarrow>
            post_users e r s = (Sent 200 (ErrorMsg ''Username already exists''), s)) \<and>
         (findOne (users s) ''email'' (fld (body r) ''email'') \<noteq> None \<longrightarrow>
            fst (post_users e r s) = Sent 200 (Message ''Email already exists'')) \<and>
         index_post_users e r s = (Sent 409 (ErrorMsg ''Username already exists''), s)"
proof (intro conjI impI)
  show "length (users (snd (post_users e r s))) = length (users s)"
    using assms
    by (auto simp: post_users_def Let_def updateOne_length split: sum.splits)
next
  assume "findOne (users s) ''email'' (fld (body r) ''email'') = None"
  with assms show "post_users e r s = (Sent 200 (ErrorMsg ''Username already exists''), s)"
    by (simp add: post_users_def Let_def)
next
  assume "findOne (users s) ''email'' (fld (body r) ''email'') \<noteq> None"
  then show "fst (post_users e r s) = Sent 200 (Message ''Email already exists'')"
    by (auto simp: post_users_def Let_def split: sum.splits)
next
  from assms show "index_post_users e r s = (Sent 409 (ErrorMsg ''Username already exists''), s)"
    by (simp add: index_post_users_def Let_def)
qed

theorem post_users_taken_username_witness:
  "post_users test_env
     (req None [] [(''email'', JStr ''dave@hive.io''), (''username'', JStr ''bob'')]) forum
     = (Sent 200 (ErrorMsg ''Username already exists''), forum) \<and>
   index_post_users test_env
     (req None [] [(''email'', JStr ''alice@hive.io''), (''username'', JStr ''bob'')]) forum
     = (Sent 409 (ErrorMsg ''Username already exists''), forum)"
proof -
  let ?r = "req None [] [(''email'', JStr ''dave@hive.io''), (''username'', JStr ''bob'')]"
  let ?r2 = "req None [] [(''email'', JStr ''alice@hive.io''), (''username'', JStr ''bob'')]"
  have u: "findOne (users forum) ''username'' (fld (body ?r) ''username'') = Some bob"
    and u2: "findOne (users forum) ''username'' (fld (body ?r2) ''username'') = Some bob"
    and n: "findOne (users forum) ''email'' (fld (body ?r) ''email'') = None"
    by (simp_all add: fixture_defs store_defs)
  from post_users_taken_username[OF u, of test_env] n
  have "post_users test_env ?r forum = (Sent 200 (ErrorMsg ''Username already exists''), forum)"
    by simp
  moreover from post_users_taken_username[OF u2, of test_env]
  have "index_post_users test_env ?r2 forum = (Sent 409 (ErrorMsg ''Username already exists''), forum)"
    by simp
  ultimately show ?thesis by (rule conjI)
qed

text \<open>
  The claim as written fails on the full server: \<open>bob\<close> is a taken username, the email
  is already registered, and the answer is the sign-in one, with \<open>alice\<close>'s record
  refreshed.
\<close>

theorem post_users_taken_username_counterexample:
  "findOne (users forum) ''username'' (Some (JStr ''bob'')) = Some bob \<and>
   post_users test_env
     (req None [] [(''email'', JStr ''alice@hive.io''), (''username'', JStr ''bob'')]) forum
     = (Sent 200 (Message ''Email already exists''),
        forum\<lparr>users :=
          [[(''_id'', JOid 101), (''email'', JStr ''alice@hive.io''), (''username'', JStr ''alice''),
            (''memberShip'', JStr ''non-member''), (''postLimit'', JNum 5),
            (''lastSignIn'', JStr ''2025-07-01T09:30:00.000Z''), (''lastSignInIp'', JStr ''10.0.0.7'')],
           bob, root, carol]\<rparr>)"
  by (simp add: post_users_def updatedUserDoc_def updateOne_def Let_def fixture_defs store_defs)

section \<open>Report submission\<close>

text \<open>
  Claim C5, as the code has it. A report submission whose \<open>commentId\<close> the ObjectId
  constructor turns into the comment id \<open>C\<close>:
  \<^item> when some stored report matches \<open>commentId = C\<close>, answers with the duplicate notice
    and leaves the store as it was;
  \<^item> when no stored report matches and the \<open>_id\<close> of the document is free, appends one
    report to the collection and answers with the insert result. The new report refers to
    \<open>C\<close> and otherwise carries the fields of the body as they were sent. The handler
    writes no \<open>status\<close> of its own, so the report is an open one (its \<open>status\<close> is not
    \<open>resolved\<close>) exactly when the body does not itself say \<open>resolved\<close>;
  \<^item> when no stored report matches and the \<open>_id\<close> of the document is taken, the store
    refuses the insert: the handler throws and the store is as it was.
\<close>

theorem post_reports_dedup:
  assumes "ObjectId e (fld (body r) ''commentId'') = Some C"
  shows "(list_ex (matches ''commentId'' (Some C)) (reports s) \<longrightarrow>
            post_reports e r s = (Sent 200 (Message ''Report allready have on this comment''), s)) \<and>
         (\<forall>d i. d = AList.update ''commentId'' C (AList.delete ''commentId'' (body r)) \<and>
               i = assign_id d (new_id e) \<and>
               \<not> list_ex (matches ''commentId'' (Some C)) (reports s) \<and>
               \<not> list_ex (\<lambda>x. fld x ''_id'' = Some i) (reports s) \<longrightarrow>
            post_reports e r s
              = (Sent 200 (InsertOneResult i), s\<lparr>reports := reports s @ [AList.update ''_id'' i d]\<rparr>) \<and>
            fld (AList.update ''_id'' i d) ''commentId'' = Some C \<and>
            fld (AList.update ''_id'' i d) ''status'' = fld (body r) ''status'' \<and>
            (fld (AList.update ''_id'' i d) ''status'' \<noteq> Some (JStr ''resolved''))
              = (fld (body r) ''status'' \<noteq> Some (JStr ''resolved''))) \<and>
         (\<forall>d i. d = AList.update ''commentId'' C (AList.delete ''commentId'' (body r)) \<and>
               i = assign_id d (new_id e) \<and>
               \<not> list_ex (matches ''commentId'' (Some C)) (reports s) \<and>
               list_ex (\<lambda>x. fld x ''_id'' = Some i) (reports s) \<longrightarrow>
            post_reports e r s = (Rejected WriteError, s))"
proof (intro conjI allI impI)
  assume "list_ex (matches ''commentId'' (Some C)) (reports s)"
  then obtain x where "findOne (reports s) ''commentId'' (Some C) = Some x"
    using findOne_None[of "reports s" "''commentId''" "Some C"] by (cases "findOne (reports s) ''commentId'' (Some C)") auto
  with assms show "post_reports e r s = (Sent 200 (Message ''Report allready have on this comment''), s)"
    by (simp add: post_reports_def Let_def fld_update)
next
  fix d i
  assume a: "d = AList.update ''commentId'' C (AList.delete ''commentId'' (body r)) \<and>
               i = assign_id d (new_id e) \<and>
               \<not> list_ex (matches ''commentId'' (Some C)) (reports s) \<and>
               \<not> list_ex (\<lambda>x. fld x ''_id'' = Some i) (reports s)"
  then have none: "findOne (reports s) ''commentId'' (Some C) = None"
    by (simp add: findOne_None)
  from a have "i = assign_id d (new_id e)"
    and "\<not> list_ex (\<lambda>x. fld x ''_id'' = Some i) (reports s)"
    by blast+
  then have ins: "insertOne (reports s) d (new_id e) = Inr (reports s @ [AList.update ''_id'' i d], i)"
    by (simp add: insertOne_def Let_def)
  from a have dd: "AList.update ''commentId'' C (AList.delete ''commentId'' (body r)) = d"
    by simp
  from a have dc: "fld d ''commentId'' = Some C"
    by (simp add: fld_update)
  from assms none ins
  show "post_reports e r s
          = (Sent 200 (InsertOneResult i), s\<lparr>reports := reports s @ [AList.update ''_id'' i d]\<rparr>)"
    by (simp add: post_reports_def Let_def dd dc)
  from a show "fld (AList.update ''_id'' i d) ''commentId'' = Some C"
    by (simp add: fld_update)
  from a show st: "fld (AList.update ''_id'' i d) ''status'' = fld (body r) ''status''"
    by (simp add: fld_update fld_delete)
  from st show "(fld (AList.update ''_id'' i d) ''status'' \<noteq> Some (JStr ''resolved''))
              = (fld (body r) ''status'' \<noteq> Some (JStr ''resolved''))"
    by simp
next
  fix d i
  assume a: "d = AList.update ''commentId'' C (AList.delete ''commentId'' (body r)) \<and>
               i = assign_id d (new_id e) \<and>
               \<not> list_ex (matches ''commentId'' (Some C)) (reports s) \<and>
               list_ex (\<lambda>x. fld x ''_id'' = Some i) (reports s)"
  then have none: "findOne (reports s) ''commentId'' (Some C) = None"
    by (simp add: findOne_None)
  from a have "i = assign_id d (new_id e)"
    and "list_ex (\<lambda>x. fld x ''_id'' = Some i) (reports s)"
    by blast+
  then have ins: "insertOne (reports s) d (new_id e) = Inl WriteError"
    by (simp add: insertOne_def Let_def)
  from a have dd: "AList.update ''commentId'' C (AList.delete ''commentId'' (body r)) = d"
    by simp
  from a have dc: "fld d ''commentId'' = Some C"
    by (simp add: fld_update)
  from assms none ins
  show "post_reports e r s = (Rejected WriteError, s)"
    by (simp add: post_reports_def Let_def dd dc)
qed

theorem post_reports_dedup_witness:
  "post_reports test_env
     (req None [] [(''commentId'', JStr ''0000000000000000000000c9''), (''reason'', JStr ''abuse'')]) forum
     = (Sent 200 (Message ''Report allready have on this comment''), forum) \<and>
   post_reports test_env
     (req None [] [(''commentId'', JStr ''0000000000000000000000ca''), (''reason'', JStr ''abuse'')]) forum
     = (Sent 200 (InsertOneResult (JOid 4096)),
        forum\<lparr>reports := reports forum @
           [[(''reason'', JStr ''abuse''), (''commentId'', JOid 202), (''_id'', JOid 4096)]]\<rparr>)"
proof -
  let ?r1 = "req None [] [(''commentId'', JStr ''0000000000000000000000c9''), (''reason'', JStr ''abuse'')]"
  let ?r2 = "req None [] [(''commentId'', JStr ''0000000000000000000000ca''), (''reason'', JStr ''abuse'')]"
  let ?d = "AList.update ''commentId'' (JOid 202) (AList.delete ''commentId'' (body ?r2))"
  have o1: "ObjectId test_env (fld (body ?r1) ''commentId'') = Some (JOid 201)"
    and o2: "ObjectId test_env (fld (body ?r2) ''commentId'') = Some (JOid 202)"
    by (simp_all add: fixture_defs store_defs)
  have dup: "list_ex (matches ''commentId'' (Some (JOid 201))) (reports forum)"
    and nodup: "\<not> list_ex (matches ''commentId'' (Some (JOid 202))) (reports forum)"
    by (simp_all add: fixture_defs store_defs)
  have d: "?d = [(''reason'', JStr ''abuse''), (''commentId'', JOid 202)]"
    by (simp add: req_def)
  have i: "assign_id ?d (new_id test_env) = JOid 4096"
    by (simp add: d assign_id_def fld_def test_env_def)
  have fresh: "\<not> list_ex (\<lambda>x. fld x ''_id'' = Some (JOid 4096)) (reports forum)"
    by (simp add: fixture_defs store_defs)
  from post_reports_dedup[OF o1, of forum] dup
  have 1: "post_reports test_env ?r1 forum
     = (Sent 200 (Message ''Report allready have on this comment''), forum)"
    by simp
  from post_reports_dedup[OF o2, of forum] nodup fresh i
  have "post_reports test_env ?r2 forum
     = (Sent 200 (InsertOneResult (JOid 4096)),
        forum\<lparr>reports := reports forum @ [AList.update ''_id'' (JOid 4096) ?d]\<rparr>)"
    by simp
  then have 2: "post_reports test_env ?r2 forum
     = (Sent 200 (InsertOneResult (JOid 4096)),
        forum\<lparr>reports := reports forum @
           [[(''reason'', JStr ''abuse''), (''commentId'', JOid 202), (''_id'', JOid 4096)]]\<rparr>)"
    by (simp add: d)
  from 1 2 show ?thesis by (rule conjI)
qed

text \<open>
  The claim as written promises an open report. It fails on a submission whose body
  carries \<open>status: resolved\<close>: no report refers to the comment, and the report inserted
  is a resolved one.
\<close>

theorem post_reports_dedup_counterexample:
  "\<not> list_ex (matches ''commentId'' (Some (JOid 202))) (reports forum) \<and>
   post_reports test_env
     (req None [] [(''commentId'', JStr ''0000000000000000000000ca''), (''status'', JStr ''resolved'')])
     forum
     = (Sent 200 (InsertOneResult (JOid 4096)),
        forum\<lparr>reports := reports forum @
           [[(''status'', JStr ''resolved''), (''commentId'', JOid 202), (''_id'', JOid 4096)]]\<rparr>)"
  by (simp add: post_reports_def insertOne_def assign_id_def Let_def fixture_defs store_defs)

section \<open>Unrecognised moderation actions\<close>

text \<open>
  Claim C6, as the code has it. A report-action request that passed \<open>verifyJWT\<close> and
  \<open>verifyAdmin\<close> and whose \<open>action\<close> is none of \<open>ignore\<close>, \<open>warn\<close>, \<open>delete-comment\<close>,
  \<open>block\<close> leaves every collection as it was. The handler builds the report filter from
  \<open>reportId\<close> before it looks at the action: the request is answered 200 with
  \<open>{modifiedCount: 1}\<close> when the ObjectId constructor accepts its \<open>reportId\<close> (a well-formed
  id, or none at all), and on a \<open>reportId\<close> that the constructor refuses the handler throws
  instead of answering, the store still untouched.
\<close>

theorem patch_reports_action_unknown:
  assumes "verifyJWT e r = Inr decoded"
    and "verifyAdmin s decoded = None"
    and "fld (body r) ''action'' \<noteq> Some (JStr ''ignore'')"
    and "fld (body r) ''action'' \<noteq> Some (JStr ''warn'')"
    and "fld (body r) ''action'' \<noteq> Some (JStr ''delete-comment'')"
    and "fld (body r) ''action'' \<noteq> Some (JStr ''block'')"
  shows "snd (patch_reports_action e r s) = s \<and>
         (ObjectId e (fld (body r) ''reportId'') \<noteq> None \<longrightarrow>
            patch_reports_action e r s = (Sent 200 (ModifiedCount 1), s)) \<and>
         (ObjectId e (fld (body r) ''reportId'') = None \<longrightarrow>
            patch_reports_action e r s = (Rejected BSONError, s))"
  using assms
  by (cases "ObjectId e (fld (body r) ''reportId'')")
     (simp_all add: patch_reports_action_def Let_def)

theorem patch_reports_action_unknown_witness:
  "patch_reports_action test_env
     (req (Some ''tok-root'') []
        [(''action'', JStr ''archive''), (''reportId'', JStr ''00000000000000000000012d''),
         (''userEmail'', JStr ''alice@hive.io''), (''commentId'', JStr ''0000000000000000000000c9'')])
     forum
   = (Sent 200 (ModifiedCount 1), forum)"
proof -
  let ?r = "req (Some ''tok-root'') []
        [(''action'', JStr ''archive''), (''reportId'', JStr ''00000000000000000000012d''),
         (''userEmail'', JStr ''alice@hive.io''), (''commentId'', JStr ''0000000000000000000000c9'')]"
  have v: "verifyJWT test_env ?r = Inr [(''email'', JStr ''root@hive.io'')]"
    by (simp add: fixture_defs store_defs)
  have adm: "verifyAdmin forum [(''email'', JStr ''root@hive.io'')] = None"
    by (simp add: verifyAdmin_def Let_def fixture_defs store_defs)
  have act: "fld (body ?r) ''action'' = Some (JStr ''archive'')"
    by (simp add: req_def fld_def)
  have oid: "ObjectId test_env (fld (body ?r) ''reportId'') = Some (JOid 301)"
    by (simp add: fixture_defs store_defs)
  from patch_reports_action_unknown[OF v adm] act oid show ?thesis
    by simp
qed

text \<open>
  The claim as written promises the success answer for every such request. It fails on
  an administrator's request with an unknown action and a \<open>reportId\<close> that is not an id.
\<close>

theorem patch_reports_action_unknown_counterexample:
  "verifyJWT test_env
     (req (Some ''tok-root'') [] [(''action'', JStr ''archive''), (''reportId'', JStr ''report-17'')])
     = Inr [(''email'', JStr ''root@hive.io'')] \<and>
   verifyAdmin forum [(''email'', JStr ''root@hive.io'')] = None \<and>
   patch_reports_action test_env
     (req (Some ''tok-root'') [] [(''action'', JStr ''archive''), (''reportId'', JStr ''report-17'')])
     forum
   = (Rejected BSONError, forum)"
  by (simp add: patch_reports_action_def verifyAdmin_def Let_def fixture_defs store_defs)

section \<open>Registration with a known email\<close>

text \<open>
  Claim C7. When the store finds a user record \<open>u\<close> for the submitted email, the handler
  of the full server answers 200 \<open>Email already exists\<close>, and the store differs from the
  one before in that record only (the first one with that email): the record keeps its
  place and every field other than \<open>lastSignIn\<close> and \<open>lastSignInIp\<close>, which now hold the
  current time and the peer address. No record is added, and the other collections are
  as before. The earlier handler of \<open>src/index.js\<close> does the same provided that no
  record has the submitted username.
\<close>

theorem post_users_known_email:
  assumes "findOne (users s) ''email'' (fld (body r) ''email'') = Some u"
  shows "\<exists>k u'. k < length (users s) \<and> users s ! k = u \<and>
           (\<forall>j<k. \<not> matches ''email'' (fld (body r) ''email'') (users s ! j)) \<and>
           post_users e r s
             = (Sent 200 (Message ''Email already exists''), s\<lparr>users := (users s)[k := u']\<rparr>) \<and>
           (findOne (users s) ''username'' (fld (body r) ''username'') = None \<longrightarrow>
              index_post_users e r s
                = (Sent 200 (Message ''Email already exists''), s\<lparr>users := (users s)[k := u']\<rparr>)) \<and>
           fld u' ''lastSignIn'' = Some (JStr (now e)) \<and>
           fld u' ''lastSignInIp'' = Some (bson (ip r)) \<and>
           (\<forall>f. f \<noteq> ''lastSignIn'' \<and> f \<noteq> ''lastSignInIp'' \<longrightarrow> fld u' f = fld u f) \<and>
           length ((users s)[k := u']) = length (users s)"
proof -
  from findOne_first[OF assms] obtain k where
    k: "k < length (users s)" "users s ! k = u"
       "matches ''email'' (fld (body r) ''email'') (users s ! k)"
       "\<forall>j<k. \<not> matches ''email'' (fld (body r) ''email'') (users s ! j)"
    by blast
  let ?u' = "AList.update ''lastSignInIp'' (bson (ip r)) (AList.update ''lastSignIn'' (JStr (now e)) u)"
  have upd: "updateOne (users s) ''email'' (fld (body r) ''email'') (updatedUserDoc e r)
               = Inr ((users s)[k := ?u'])"
    unfolding updatedUserDoc_def
    using updateOne_set_at[OF k(1) k(3) k(4)] k(2) by (simp add: bson_def)
  have full: "post_users e r s
      = (Sent 200 (Message ''Email already exists''), s\<lparr>users := (users s)[k := ?u']\<rparr>)"
    using assms upd by (simp add: post_users_def Let_def)
  have old: "findOne (users s) ''username'' (fld (body r) ''username'') = None \<longrightarrow>
      index_post_users e r s
        = (Sent 200 (Message ''Email already exists''), s\<lparr>users := (users s)[k := ?u']\<rparr>)"
    using assms upd by (simp add: index_post_users_def Let_def)
  have f1: "fld ?u' ''lastSignIn'' = Some (JStr (now e))"
    and f2: "fld ?u' ''lastSignInIp'' = Some (bson (ip r))"
    and f3: "\<forall>f. f \<noteq> ''lastSignIn'' \<and> f \<noteq> ''lastSignInIp'' \<longrightarrow> fld ?u' f = fld u f"
    by (simp_all add: fld_update)
  from k full old f1 f2 f3 show ?thesis
    by (intro exI[of _ k] exI[of _ ?u']) simp
qed

theorem post_users_known_email_witness:
  "post_users test_env
     (req None [] [(''email'', JStr ''bob@hive.io''), (''username'', JStr ''bob''), (''postLimit'', JNum 99)])
     forum
   = (Sent 200 (Message ''Email already exists''),
      forum\<lparr>users := [alice,
         [(''_id'', JOid 102), (''email'', JStr ''bob@hive.io''), (''username'', JStr ''bob''),
          (''memberShip'', JStr ''member''), (''postLimit'', JNum 10),
          (''lastSignIn'', JStr ''2025-07-01T09:30:00.000Z''), (''lastSignInIp'', JStr ''10.0.0.7'')],
         root, carol]\<rparr>) \<and>
   index_post_users test_env
     (req None [] [(''email'', JStr ''bob@hive.io''), (''username'', JStr ''robert'')])
     forum
   = (Sent 200 (Message ''Email already exists''),
      forum\<lparr>users := [alice,
         [(''_id'', JOid 102), (''email'', JStr ''bob@hive.io''), (''username'', JStr ''bob''),
          (''memberShip'', JStr ''member''), (''postLimit'', JNum 10),
          (''lastSignIn'', JStr ''2025-07-01T09:30:00.000Z''), (''lastSignInIp'', JStr ''10.0.0.7'')],
         root, carol]\<rparr>)"
proof -
  let ?r = "req None [] [(''email'', JStr ''bob@hive.io''), (''username'', JStr ''bob''), (''postLimit'', JNum 99)]"
  let ?r2 = "req None [] [(''email'', JStr ''bob@hive.io''), (''username'', JStr ''robert'')]"
  let ?bob' = "[(''_id'', JOid 102), (''email'', JStr ''bob@hive.io''), (''username'', JStr ''bob''),
          (''memberShip'', JStr ''member''), (''postLimit'', JNum 10),
          (''lastSignIn'', JStr ''2025-07-01T09:30:00.000Z''), (''lastSignInIp'', JStr ''10.0.0.7'')]"
  have f: "findOne (users forum) ''email'' (fld (body ?r) ''email'') = Some bob"
    by (simp add: fixture_defs store_defs)
  obtain k u' where k: "k < length (users forum)" "users forum ! k = bob"
      "\<forall>j<k. \<not> matches ''email'' (fld (body ?r) ''email'') (users forum ! j)"
      "post_users test_env ?r forum
         = (Sent 200 (Message ''Email already exists''), forum\<lparr>users := (users forum)[k := u']\<rparr>)"
      "fld u' ''lastSignIn'' = Some (JStr (now test_env))"
    using post_users_known_email[OF f, of test_env] by (elim exE conjE)
  have "fst (post_users test_env ?r forum) = Sent 200 (Message ''Email already exists'')"
    using k(4) by simp
  moreover have "snd (post_users test_env ?r forum) = forum\<lparr>users := [alice, ?bob', root, carol]\<rparr>"
    by (simp add: post_users_def updatedUserDoc_def updateOne_def Let_def fixture_defs store_defs)
  ultimately have 1: "post_users test_env ?r forum
      = (Sent 200 (Message ''Email already exists''), forum\<lparr>users := [alice, ?bob', root, carol]\<rparr>)"
    by (simp add: prod_eq_iff)
  have 2: "index_post_users test_env ?r2 forum
   = (Sent 200 (Message ''Email already exists''), forum\<lparr>users := [alice, ?bob', root, carol]\<rparr>)"
    by (simp add: index_post_users_def updatedUserDoc_def updateOne_def Let_def fixture_defs store_defs)
  from 1 2 show ?thesis by (rule conjI)
qed

section \<open>The advisory counter across creation and deletion\<close>

lemma post_posts_success:
  assumes "post_posts e r s = (Sent 200 (InsertOneResult i), s')"
    and "verifyJWT e r = Inr decoded"
  shows "strict_eq (fld decoded ''email'') (fld (body r) ''authorEmail'')"
    and "insertOne (posts s) (body r) (new_id e) = Inr (posts s', i)"
    and "updateOne (users s) ''email'' (fld decoded ''email'') (Inc ''postLimit'' (- 1)) = Inr (users s')"
    and "s' = s\<lparr>posts := posts s', users := users s'\<rparr>"
  using assms
  by (auto simp: post_posts_def Let_def split: if_splits option.splits sum.splits prod.splits)

lemma delete_posts_success:
  assumes "delete_posts e r s = (Sent 200 (PostDeleted c), s')"
    and "verifyJWT e r = Inr decoded"
  shows "updateOne (users s) ''email'' (fld decoded ''email'') (Inc ''postLimit'' 1) = Inr (users s')"
  using assms
  by (auto simp: delete_posts_def Let_def split: if_splits option.splits sum.splits prod.splits)

lemma postLimit_after_inc:
  assumes "postLimit_of s email = Some (JNum n)"
    and "updateOne (users s) ''email'' email (Inc ''postLimit'' m) = Inr us"
  shows "\<exists>k<length (users s). findOne (users s) ''email'' email = Some (users s ! k) \<and>
           (\<forall>j<k. \<not> matches ''email'' email (users s ! j)) \<and>
           fld (users s ! k) ''postLimit'' = Some (JNum n) \<and>
           us = (users s)[k := AList.update ''postLimit'' (JNum (round_double (n + of_int m)))
                                 (users s ! k)] \<and>
           findOne us ''email'' email
             = Some (AList.update ''postLimit'' (JNum (round_double (n + of_int m))) (users s ! k))"
proof -
  from assms(1) obtain u where u: "findOne (users s) ''email'' email = Some u"
    "fld u ''postLimit'' = Some (JNum n)"
    by (auto simp: postLimit_of_def split: option.splits)
  from findOne_first[OF u(1)] obtain k where
    k: "k < length (users s)" "users s ! k = u" "matches ''email'' email u"
       "\<forall>j<k. \<not> matches ''email'' email (users s ! j)"
    by blast
  let ?u' = "AList.update ''postLimit'' (JNum (round_double (n + of_int m))) (users s ! k)"
  have upd: "updateOne (users s) ''email'' email (Inc ''postLimit'' m) = Inr ((users s)[k := ?u'])"
    using k u(2) by (intro updateOne_inc_at) simp_all
  with assms(2) have us: "us = (users s)[k := ?u']" by simp
  have "findOne ((users s)[k := ?u']) ''email'' email = Some (((users s)[k := ?u']) ! k)"
    using k by (intro findOne_at) (simp_all add: matches_update_other)
  with k have "findOne us ''email'' email = Some ?u'"
    by (simp add: us)
  with k u us show ?thesis
    by (intro exI[of _ k]) simp
qed

text \<open>
  Claim C8, as the code has it. For the user record that the store finds for the acting
  identity, with a \<open>postLimit\<close> that is an integer \<open>n\<close> of magnitude below \<open>2^53\<close>:
  \<^item> a post creation that answers with the insert result changes that record's
    \<open>postLimit\<close> to \<open>n - 1\<close>, and no other field of any user record;
  \<^item> a post deletion that answers with its success message changes it to \<open>n + 1\<close>, and no
    other field of any user record;
  \<^item> when a successful creation is followed by the same identity's deletion of the post
    just created, the deletion succeeds and the whole store, \<open>postLimit\<close> included, is
    again what it was before the creation.
  The counter is whatever number the client registered with, and the store adds in the
  arithmetic of doubles: beyond \<open>2^53\<close> the steps are no longer exact.
\<close>

theorem postLimit_create_delete:
  assumes "verifyJWT e r = Inr decoded"
    and "postLimit_of s (fld decoded ''email'') = Some (JNum (of_int n))"
    and "\<bar>n\<bar> < (2::int) ^ 53"
  shows "(\<forall>i s'. post_posts e r s = (Sent 200 (InsertOneResult i), s') \<longrightarrow>
            postLimit_of s' (fld decoded ''email'') = Some (JNum (of_int (n - 1))) \<and>
            (\<exists>k<length (users s). findOne (users s) ''email'' (fld decoded ''email'') = Some (users s ! k) \<and>
               users s' = (users s)[k := AList.update ''postLimit'' (JNum (of_int (n - 1))) (users s ! k)])) \<and>
         (\<forall>c s'. delete_posts e r s = (Sent 200 (PostDeleted c), s') \<longrightarrow>
            postLimit_of s' (fld decoded ''email'') = Some (JNum (of_int (n + 1))) \<and>
            (\<exists>k<length (users s). findOne (users s) ''email'' (fld decoded ''email'') = Some (users s ! k) \<and>
               users s' = (users s)[k := AList.update ''postLimit'' (JNum (of_int (n + 1))) (users s ! k)])) \<and>
         (\<forall>i s1 r2 decoded2.
            post_posts e r s = (Sent 200 (InsertOneResult i), s1) \<and>
            verifyJWT e r2 = Inr decoded2 \<and> fld decoded2 ''email'' = fld decoded ''email'' \<and>
            ObjectId e (Some (JStr (param r2))) = Some i \<and> i \<noteq> JNull \<longrightarrow>
            delete_posts e r2 s1 = (Sent 200 (PostDeleted 1), s) \<and>
            postLimit_of (snd (delete_posts e r2 s1)) (fld decoded ''email'')
              = postLimit_of s (fld decoded ''email''))"
proof (intro conjI allI impI)
  fix i s'
  assume ok: "post_posts e r s = (Sent 200 (InsertOneResult i), s')"
  from postLimit_after_inc[OF assms(2) post_posts_success(3)[OF ok assms(1)]]
  obtain k where k: "k < length (users s)"
    "findOne (users s) ''email'' (fld decoded ''email'') = Some (users s ! k)"
    "users s' = (users s)[k := AList.update ''postLimit''
        (JNum (round_double (of_int n + of_int (- 1)))) (users s ! k)]"
    "findOne (users s') ''email'' (fld decoded ''email'')
      = Some (AList.update ''postLimit'' (JNum (round_double (of_int n + of_int (- 1)))) (users s ! k))"
    by (elim exE conjE)
  from k(4) show "postLimit_of s' (fld decoded ''email'') = Some (JNum (of_int (n - 1)))"
    by (simp only: step_exact(1)[OF assms(3)]) (simp add: postLimit_of_def fld_update)
  from k(1-3)
  show "\<exists>k<length (users s). findOne (users s) ''email'' (fld decoded ''email'') = Some (users s ! k) \<and>
               users s' = (users s)[k := AList.update ''postLimit'' (JNum (of_int (n - 1))) (users s ! k)]"
    by (simp only: step_exact(1)[OF assms(3)]) (intro exI[of _ k], simp)
next
  fix c s'
  assume ok: "delete_posts e r s = (Sent 200 (PostDeleted c), s')"
  from postLimit_after_inc[OF assms(2) delete_posts_success[OF ok assms(1)]]
  obtain k where k: "k < length (users s)"
    "findOne (users s) ''email'' (fld decoded ''email'') = Some (users s ! k)"
    "users s' = (users s)[k := AList.update ''postLimit''
        (JNum (round_double (of_int n + of_int 1))) (users s ! k)]"
    "findOne (users s') ''email'' (fld decoded ''email'')
      = Some (AList.update ''postLimit'' (JNum (round_double (of_int n + of_int 1))) (users s ! k))"
    by (elim exE conjE)
  from k(4) show "postLimit_of s' (fld decoded ''email'') = Some (JNum (of_int (n + 1)))"
    by (simp only: step_exact(2)[OF assms(3)]) (simp add: postLimit_of_def fld_update)
  from k(1-3)
  show "\<exists>k<length (users s). findOne (users s) ''email'' (fld decoded ''email'') = Some (users s ! k) \<and>
               users s' = (users s)[k := AList.update ''postLimit'' (JNum (of_int (n + 1))) (users s ! k)]"
    by (simp only: step_exact(2)[OF assms(3)]) (intro exI[of _ k], simp)
next
  fix i s1 r2 decoded2
  assume a: "post_posts e r s = (Sent 200 (InsertOneResult i), s1) \<and>
            verifyJWT e r2 = Inr decoded2 \<and> fld decoded2 ''email'' = fld decoded ''email'' \<and>
            ObjectId e (Some (JStr (param r2))) = Some i \<and> i \<noteq> JNull"
  then have ok: "post_posts e r s = (Sent 200 (InsertOneResult i), s1)" by simp
  note ps = post_posts_success[OF ok assms(1)]
  let ?D = "fld decoded ''email''"
  let ?d = "AList.update ''_id'' i (body r)"
  \<comment> \<open>the post collection after the creation\<close>
  from ps(2) have ins: "posts s1 = posts s @ [?d]"
    and fresh: "\<not> list_ex (\<lambda>x. fld x ''_id'' = Some i) (posts s)"
    by (auto simp: insertOne_def Let_def split: if_splits)
  have nomatch: "\<forall>x\<in>set (posts s). \<not> matches ''_id'' (Some i) x"
  proof
    fix x
    assume "x \<in> set (posts s)"
    with fresh have "fld x ''_id'' \<noteq> Some i"
      by (auto simp: list_ex_iff)
    moreover from a have "i \<noteq> JNull" by simp
    ultimately show "\<not> matches ''_id'' (Some i) x"
      by (cases "fld x ''_id''") (simp_all add: matches_def bson_def)
  qed
  have dmatch: "matches ''_id'' (Some i) ?d"
    by (simp add: matches_def fld_update bson_def)
  have "find (matches ''_id'' (Some i)) (posts s @ [?d]) = Some ?d"
    using nomatch dmatch by (rule find_snoc)
  then have found: "findOne (posts s1) ''_id'' (Some i) = Some ?d"
    by (simp only: findOne_def ins)
  have "deleteFirst (matches ''_id'' (Some i)) (posts s @ [?d]) = posts s"
    using nomatch dmatch by (rule deleteFirst_snoc)
  then have del: "deleteOne (posts s1) ''_id'' (Some i) = posts s"
    by (simp only: deleteOne_def ins)
  have author: "strict_eq (fld ?d ''authorEmail'') ?D"
    using strict_eq_sym[OF ps(1)] by (simp add: fld_update)
  \<comment> \<open>the user collection after the creation, and after the deletion\<close>
  from postLimit_after_inc[OF assms(2) ps(3)] obtain k where
    k0: "k < length (users s)" "fld (users s ! k) ''postLimit'' = Some (JNum (of_int n))"
       "\<forall>j<k. \<not> matches ''email'' ?D (users s ! j)"
       "findOne (users s) ''email'' ?D = Some (users s ! k)"
       "users s1 = (users s)[k := AList.update ''postLimit''
          (JNum (round_double (of_int n + of_int (- 1)))) (users s ! k)]"
    by (elim exE conjE)
  note k = k0(1-4) k0(5)[unfolded step_exact(1)[OF assms(3)]]
  have mk: "matches ''email'' ?D (users s ! k)"
    using findOne_first[OF k(4)] by auto
  have "updateOne (users s1) ''email'' ?D (Inc ''postLimit'' 1)
          = Inr ((users s1)[k := AList.update ''postLimit''
                (JNum (round_double (of_int (n - 1) + of_int 1))) (users s1 ! k)])"
    using k mk by (intro updateOne_inc_at) (simp_all add: matches_update_other fld_update)
  also have "(users s1)[k := AList.update ''postLimit''
                (JNum (round_double (of_int (n - 1) + of_int 1))) (users s1 ! k)] = users s"
    using k by (simp only: step_exact(3)[OF assms(3)]) (simp add: update_same)
  finally have upd: "updateOne (users s1) ''email'' ?D (Inc ''postLimit'' 1) = Inr (users s)" .
  have "s1\<lparr>posts := posts s, users := users s\<rparr> = s"
    using ps(4) by (cases s, cases s1) simp
  with a found author del upd
  show "delete_posts e r2 s1 = (Sent 200 (PostDeleted 1), s)"
    by (simp add: delete_posts_def Let_def matchedCount_def)
  then show "postLimit_of (snd (delete_posts e r2 s1)) (fld decoded ''email'')
              = postLimit_of s (fld decoded ''email'')"
    by simp
qed

theorem postLimit_create_delete_witness:
  "postLimit_of forum (Some (JStr ''carol@hive.io'')) = Some (JNum 5) \<and>
   fst (post_posts test_env
      (req (Some ''tok-carol'') [] [(''authorEmail'', JStr ''carol@hive.io''), (''title'', JStr ''eighth'')])
      forum) = Sent 200 (InsertOneResult (JOid 4096)) \<and>
   postLimit_of (snd (post_posts test_env
      (req (Some ''tok-carol'') [] [(''authorEmail'', JStr ''carol@hive.io''), (''title'', JStr ''eighth'')])
      forum)) (Some (JStr ''carol@hive.io'')) = Some (JNum 4) \<and>
   delete_posts test_env (req (Some ''tok-carol'') ''000000000000000000001000'' [])
     (snd (post_posts test_env
        (req (Some ''tok-carol'') [] [(''authorEmail'', JStr ''carol@hive.io''), (''title'', JStr ''eighth'')])
        forum))
     = (Sent 200 (PostDeleted 1), forum) \<and>
   fst (delete_posts test_env (req (Some ''tok-carol'') ''00000000000000000000001f'' []) forum)
     = Sent 200 (PostDeleted 1) \<and>
   postLimit_of (snd (delete_posts test_env (req (Some ''tok-carol'') ''00000000000000000000001f'' []) forum))
     (Some (JStr ''carol@hive.io'')) = Some (JNum 6)"
proof -
  let ?rc = "req (Some ''tok-carol'') [] [(''authorEmail'', JStr ''carol@hive.io''), (''title'', JStr ''eighth'')]"
  let ?rd = "req (Some ''tok-carol'') ''000000000000000000001000'' []"
  let ?re = "req (Some ''tok-carol'') ''00000000000000000000001f'' []"
  let ?dec = "[(''email'', JStr ''carol@hive.io'')]"
  have v: "verifyJWT test_env ?rc = Inr ?dec"
    by (simp add: fixture_defs store_defs)
  have vd: "verifyJWT test_env ?rd = Inr ?dec"
    by (simp add: fixture_defs store_defs)
  have ve: "verifyJWT test_env ?re = Inr ?dec"
    by (simp add: fixture_defs store_defs)
  have D: "fld ?dec ''email'' = Some (JStr ''carol@hive.io'')"
    by (simp add: fld_def)
  have pl: "postLimit_of forum (fld ?dec ''email'') = Some (JNum 5)"
    by (simp add: postLimit_of_def fixture_defs store_defs)
  have created: "fst (post_posts test_env ?rc forum) = Sent 200 (InsertOneResult (JOid 4096))"
    by (simp add: post_posts_def limit_exceeded_def insertOne_def assign_id_def updateOne_def
          inc_field_def Let_def fixture_defs store_defs)
  then have cr: "post_posts test_env ?rc forum
      = (Sent 200 (InsertOneResult (JOid 4096)), snd (post_posts test_env ?rc forum))"
    by (simp add: prod_eq_iff)
  have oid: "ObjectId test_env (Some (JStr (param ?rd))) = Some (JOid 4096)"
    by (simp add: fixture_defs)
  have deleted: "fst (delete_posts test_env ?re forum) = Sent 200 (PostDeleted 1)"
    by (simp add: delete_posts_def deleteOne_def updateOne_def matchedCount_def
          inc_field_def Let_def fixture_defs store_defs)
  then have de: "delete_posts test_env ?re forum
      = (Sent 200 (PostDeleted 1), snd (delete_posts test_env ?re forum))"
    by (simp add: prod_eq_iff)
  have pl': "postLimit_of forum (fld ?dec ''email'') = Some (JNum (of_int 5))"
    using pl by simp
  have bound: "\<bar>5\<bar> < (2::int) ^ 53"
    by simp
  note th = postLimit_create_delete[OF v pl' bound]
  note th' = postLimit_create_delete[OF ve pl' bound]
  from th cr have a: "postLimit_of (snd (post_posts test_env ?rc forum)) (fld ?dec ''email'')
      = Some (JNum (of_int (5 - 1)))"
    by blast
  from th cr vd oid have b: "delete_posts test_env ?rd (snd (post_posts test_env ?rc forum))
      = (Sent 200 (PostDeleted 1), forum)"
    by blast
  from th' de have c: "postLimit_of (snd (delete_posts test_env ?re forum)) (fld ?dec ''email'')
      = Some (JNum (of_int (5 + 1)))"
    by blast
  from pl created a b c deleted show ?thesis
    by (simp only: D) simp
qed

text \<open>
  The claim as written fails for a counter beyond \<open>2^53\<close>, which a client can register
  with: from \<open>9007199254740994\<close> the creation leaves \<open>9007199254740992\<close>, and the deletion of
  the post just created leaves it there.
\<close>

theorem postLimit_create_delete_counterexample:
  "postLimit_of rich_forum (Some (JStr ''carol@hive.io'')) = Some (JNum 9007199254740994) \<and>
   fst (post_posts test_env
      (req (Some ''tok-carol'') [] [(''authorEmail'', JStr ''carol@hive.io''), (''title'', JStr ''eighth'')])
      rich_forum) = Sent 200 (InsertOneResult (JOid 4096)) \<and>
   postLimit_of (snd (post_posts test_env
      (req (Some ''tok-carol'') [] [(''authorEmail'', JStr ''carol@hive.io''), (''title'', JStr ''eighth'')])
      rich_forum)) (Some (JStr ''carol@hive.io'')) = Some (JNum 9007199254740992) \<and>
   fst (delete_posts test_env (req (Some ''tok-carol'') ''000000000000000000001000'' [])
     (snd (post_posts test_env
        (req (Some ''tok-carol'') [] [(''authorEmail'', JStr ''carol@hive.io''), (''title'', JStr ''eighth'')])
        rich_forum))) = Sent 200 (PostDeleted 1) \<and>
   postLimit_of (snd (delete_posts test_env (req (Some ''tok-carol'') ''000000000000000000001000'' [])
     (snd (post_posts test_env
        (req (Some ''tok-carol'') [] [(''authorEmail'', JStr ''carol@hive.io''), (''title'', JStr ''eighth'')])
        rich_forum)))) (Some (JStr ''carol@hive.io'')) = Some (JNum 9007199254740992)"
proof -
  let ?rc = "req (Some ''tok-carol'') [] [(''authorEmail'', JStr ''carol@hive.io''), (''title'', JStr ''eighth'')]"
  let ?rd = "req (Some ''tok-carol'') ''000000000000000000001000'' []"
  let ?s1 = "rich_forum\<lparr>posts := posts rich_forum @
        [[(''authorEmail'', JStr ''carol@hive.io''), (''title'', JStr ''eighth''), (''_id'', JOid 4096)]],
      users := [[(''_id'', JOid 104), (''email'', JStr ''carol@hive.io''), (''username'', JStr ''carol''),
                 (''postLimit'', JNum 9007199254740992)]]\<rparr>"
  have 0: "postLimit_of rich_forum (Some (JStr ''carol@hive.io'')) = Some (JNum 9007199254740994)"
    by (simp add: postLimit_of_def rich_forum_def fixture_defs store_defs)
  have 1: "post_posts test_env ?rc rich_forum = (Sent 200 (InsertOneResult (JOid 4096)), ?s1)"
    by (simp add: post_posts_def limit_exceeded_def insertOne_def assign_id_def updateOne_def
          inc_field_def Let_def rich_forum_def fixture_defs store_defs round_double_ties)
  have 2: "postLimit_of ?s1 (Some (JStr ''carol@hive.io'')) = Some (JNum 9007199254740992)"
    by (simp add: postLimit_of_def store_defs)
  have 3: "delete_posts test_env ?rd ?s1 = (Sent 200 (PostDeleted 1), ?s1\<lparr>posts := posts rich_forum\<rparr>)"
    by (simp add: delete_posts_def deleteOne_def updateOne_def matchedCount_def
          inc_field_def Let_def rich_forum_def fixture_defs store_defs round_double_ties)
  have 4: "postLimit_of (?s1\<lparr>posts := posts rich_forum\<rparr>) (Some (JStr ''carol@hive.io''))
      = Some (JNum 9007199254740992)"
    by (simp add: postLimit_of_def store_defs)
  from 0 1 2 3 4 show ?thesis
    by simp
qed

section \<open>Tiers without a ceiling\<close>

text \<open>
  Claim C9. A post-creation request that passed the authentication gate, declares the
  acting identity as its author, and whose author's user record has a \<open>memberShip\<close> that
  is neither \<open>member\<close> nor \<open>non-member\<close> (a missing field included) meets no ceiling,
  whatever the number of posts counted for the author: when the store accepts the
  document (its \<open>_id\<close> is not already taken) the post is appended to the collection, and
  the insert result is sent when the author's \<open>postLimit\<close> is a number or missing.
\<close>

theorem post_posts_no_ceiling:
  assumes "verifyJWT e r = Inr decoded"
    and "strict_eq (fld decoded ''email'') (fld (body r) ''authorEmail'')"
    and "findOne (users s) ''email'' (fld decoded ''email'') = Some member"
    and "fld member ''memberShip'' \<noteq> Some (JStr ''member'')"
    and "fld member ''memberShip'' \<noteq> Some (JStr ''non-member'')"
  shows "(\<forall>n. \<not> limit_exceeded member n) \<and>
         (\<not> list_ex (\<lambda>x. fld x ''_id'' = Some (assign_id (body r) (new_id e))) (posts s) \<longrightarrow>
            posts (snd (post_posts e r s))
              = posts s @ [AList.update ''_id'' (assign_id (body r) (new_id e)) (body r)] \<and>
            (fld member ''postLimit'' = None \<or> (\<exists>n. fld member ''postLimit'' = Some (JNum n)) \<longrightarrow>
               fst (post_posts e r s) = Sent 200 (InsertOneResult (assign_id (body r) (new_id e)))))"
proof (intro conjI allI impI)
  fix n
  show "\<not> limit_exceeded member n"
    using assms(4,5) by (simp add: limit_exceeded_def)
next
  assume fresh: "\<not> list_ex (\<lambda>x. fld x ''_id'' = Some (assign_id (body r) (new_id e))) (posts s)"
  have nl: "\<not> limit_exceeded member (countDocuments (posts s) ''authorEmail'' (fld decoded ''email''))"
    using assms(4,5) by (simp add: limit_exceeded_def)
  show "posts (snd (post_posts e r s))
          = posts s @ [AList.update ''_id'' (assign_id (body r) (new_id e)) (body r)]"
    using assms(1-3) nl fresh
    by (simp add: post_posts_def insertOne_def Let_def split: sum.split)
  assume "fld member ''postLimit'' = None \<or> (\<exists>n. fld member ''postLimit'' = Some (JNum n))"
  moreover from findOne_first[OF assms(3)] obtain k where
    k: "k < length (users s)" "users s ! k = member"
       "matches ''email'' (fld decoded ''email'') member"
       "\<forall>j<k. \<not> matches ''email'' (fld decoded ''email'') (users s ! j)"
    by blast
  ultimately have "\<exists>us. updateOne (users s) ''email'' (fld decoded ''email'') (Inc ''postLimit'' (- 1)) = Inr us"
    using updateOne_inc_at[of k "users s" "''email''" "fld decoded ''email''" "''postLimit''" _ "- 1"]
      updateOne_inc_missing_at[of k "users s" "''email''" "fld decoded ''email''" "''postLimit''" "- 1"]
    by auto
  then show "fst (post_posts e r s) = Sent 200 (InsertOneResult (assign_id (body r) (new_id e)))"
    using assms(1-3) nl fresh
    by (auto simp: post_posts_def insertOne_def Let_def)
qed

theorem post_posts_no_ceiling_witness:
  "countDocuments (posts forum) ''authorEmail'' (Some (JStr ''carol@hive.io'')) = 7 \<and>
   fld carol ''memberShip'' = None \<and>
   posts (snd (post_posts test_env
      (req (Some ''tok-carol'') [] [(''authorEmail'', JStr ''carol@hive.io''), (''title'', JStr ''eighth'')])
      forum))
     = posts forum @ [[(''authorEmail'', JStr ''carol@hive.io''), (''title'', JStr ''eighth''),
                       (''_id'', JOid 4096)]] \<and>
   fst (post_posts test_env
      (req (Some ''tok-carol'') [] [(''authorEmail'', JStr ''carol@hive.io''), (''title'', JStr ''eighth'')])
      forum)
     = Sent 200 (InsertOneResult (JOid 4096))"
proof -
  let ?r = "req (Some ''tok-carol'') [] [(''authorEmail'', JStr ''carol@hive.io''), (''title'', JStr ''eighth'')]"
  have 1: "verifyJWT test_env ?r = Inr [(''email'', JStr ''carol@hive.io'')]"
    by (simp add: fixture_defs store_defs)
  have 2: "strict_eq (fld [(''email'', JStr ''carol@hive.io'')] ''email'') (fld (body ?r) ''authorEmail'')"
    by (simp add: fixture_defs store_defs)
  have 3: "findOne (users forum) ''email'' (fld [(''email'', JStr ''carol@hive.io'')] ''email'') = Some carol"
    by (simp add: fixture_defs store_defs)
  have 4: "fld carol ''memberShip'' \<noteq> Some (JStr ''member'')"
    and 5: "fld carol ''memberShip'' \<noteq> Some (JStr ''non-member'')"
    by (simp_all add: fixture_defs store_defs)
  have 6: "assign_id (body ?r) (new_id test_env) = JOid 4096"
    by (simp add: assign_id_def fixture_defs store_defs)
  have 7: "\<not> list_ex (\<lambda>x. fld x ''_id'' = Some (JOid 4096)) (posts forum)"
    by (simp add: fixture_defs store_defs)
  have 8: "fld carol ''postLimit'' = Some (JNum 5)"
    by (simp add: fixture_defs store_defs)
  have 9: "AList.update ''_id'' (JOid 4096) (body ?r)
      = [(''authorEmail'', JStr ''carol@hive.io''), (''title'', JStr ''eighth''), (''_id'', JOid 4096)]"
    by (simp add: req_def)
  have 10: "countDocuments (posts forum) ''authorEmail'' (Some (JStr ''carol@hive.io'')) = 7"
    and 11: "fld carol ''memberShip'' = None"
    by (simp_all add: fixture_defs store_defs)
  from post_posts_no_ceiling[OF 1 2 3 4 5] 6 7 8 9 10 11 show ?thesis
    by simp
qed

section \<open>Votes\<close>

lemma vote_up: "fld (body r) ''type'' = Some (JStr ''up'') \<Longrightarrow>
    patch_post_vote e r s = vote_with e r s ''upVote''"
  by (cases "ObjectId e (Some (JStr (param r)))") (simp_all add: patch_post_vote_def vote_with_def Let_def)

lemma vote_down: "fld (body r) ''type'' = Some (JStr ''down'') \<Longrightarrow>
    patch_post_vote e r s = vote_with e r s ''downVote''"
  by (cases "ObjectId e (Some (JStr (param r)))") (simp_all add: patch_post_vote_def vote_with_def Let_def)

lemma vote_with_frame:
  assumes "h \<noteq> g"
  shows "map (\<lambda>d. fld d h) (posts (snd (vote_with e r s g))) = map (\<lambda>d. fld d h) (posts s)"
proof (cases "ObjectId e (Some (JStr (param r)))")
  case None
  then show ?thesis by (simp add: vote_with_def)
next
  case (Some oid)
  show ?thesis
  proof (cases "updateOne (posts s) ''_id'' (Some oid) (Inc g 1)")
    case (Inl err)
    with Some show ?thesis by (simp add: vote_with_def)
  next
    case (Inr ps)
    from assms have "g \<noteq> h" by simp
    from updateOne_inc_frame[OF Inr this] Some Inr show ?thesis
      by (simp add: vote_with_def)
  qed
qed

lemma vote_with_rest: "snd (vote_with e r s g) = s\<lparr>posts := posts (snd (vote_with e r s g))\<rparr>"
proof (cases "ObjectId e (Some (JStr (param r)))")
  case None
  then show ?thesis by (simp add: vote_with_def)
next
  case (Some oid)
  then show ?thesis
    by (cases "updateOne (posts s) ''_id'' (Some oid) (Inc g 1)") (simp_all add: vote_with_def)
qed

lemma vote_with_hit:
  assumes "ObjectId e (Some (JStr (param r))) = Some P"
    and "findOne (posts s) ''_id'' (Some P) = Some p"
    and "fld p g = Some (JNum (of_int n)) \<and> \<bar>n\<bar> < 2 ^ 53 \<or> fld p g = None \<and> n = 0"
  shows "\<exists>k<length (posts s). posts s ! k = p \<and>
            (\<forall>j<k. \<not> matches ''_id'' (Some P) (posts s ! j)) \<and>
            vote_with e r s g
              = (Sent 200 (UpdateResult 1),
                 s\<lparr>posts := (posts s)[k := AList.update g (JNum (of_int (n + 1))) p]\<rparr>)"
proof -
  from findOne_first[OF assms(2)] obtain k where
    k: "k < length (posts s)" "posts s ! k = p" "matches ''_id'' (Some P) p"
       "\<forall>j<k. \<not> matches ''_id'' (Some P) (posts s ! j)"
    by blast
  from k have mk: "matches ''_id'' (Some P) (posts s ! k)" by simp
  have "updateOne (posts s) ''_id'' (Some P) (Inc g 1)
          = Inr ((posts s)[k := AList.update g (JNum (of_int (n + 1))) p])"
    using assms(3)
  proof
    assume a: "fld p g = Some (JNum (of_int n)) \<and> \<bar>n\<bar> < 2 ^ 53"
    then have "fld (posts s ! k) g = Some (JNum (of_int n))" by (simp add: k(2))
    from updateOne_inc_at[OF k(1) mk k(4) this, of 1] step_exact(2)[of n] a show ?thesis
      by (simp add: k(2))
  next
    assume a: "fld p g = None \<and> n = 0"
    then have "fld (posts s ! k) g = None" by (simp add: k(2))
    from updateOne_inc_missing_at[OF k(1) mk k(4) this, of 1] a show ?thesis by (simp add: k(2))
  qed
  with assms(1,2) have "vote_with e r s g
              = (Sent 200 (UpdateResult 1),
                 s\<lparr>posts := (posts s)[k := AList.update g (JNum (of_int (n + 1))) p]\<rparr>)"
    by (simp add: vote_with_def matchedCount_def)
  with k(1,2,4) show ?thesis by (intro exI[of _ k]) simp
qed

text \<open>
  Claim C10, as the code has it. For a vote request on a post:
  \<^item> when \<open>type\<close> is neither \<open>up\<close> nor \<open>down\<close>, the store is left as it was and no
    response is sent;
  \<^item> when \<open>type\<close> is \<open>up\<close>, no collection other than the posts changes, no post is added
    or removed, and every field other than \<open>upVote\<close> of every post is as before (the
    \<open>downVote\<close> in particular); when the path parameter denotes the id of a stored post
    whose \<open>upVote\<close> is an integer \<open>n\<close> of magnitude below \<open>2^53\<close> (a missing counter counts
    as 0), that post, the first with the id, gets \<open>upVote = n + 1\<close>, every other post stays as it is, and the
    update result is sent;
  \<^item> when \<open>type\<close> is \<open>down\<close>, the same with \<open>downVote\<close> and \<open>upVote\<close> exchanged.
  The counters are whatever numbers the post was created with, and the store adds in the
  arithmetic of doubles: beyond \<open>2^53\<close> an increment by 1 can leave the counter where it
  was.
\<close>

theorem patch_post_vote_frame:
  "(fld (body r) ''type'' \<noteq> Some (JStr ''up'') \<and> fld (body r) ''type'' \<noteq> Some (JStr ''down'') \<longrightarrow>
      snd (patch_post_vote e r s) = s \<and> \<not> responded (fst (patch_post_vote e r s))) \<and>
   (fld (body r) ''type'' = Some (JStr ''up'') \<longrightarrow>
      (\<forall>h. h \<noteq> ''upVote'' \<longrightarrow>
         map (\<lambda>d. fld d h) (posts (snd (patch_post_vote e r s))) = map (\<lambda>d. fld d h) (posts s)) \<and>
      snd (patch_post_vote e r s) = s\<lparr>posts := posts (snd (patch_post_vote e r s))\<rparr> \<and>
      (\<forall>P p. \<forall>n::int. ObjectId e (Some (JStr (param r))) = Some P \<and>
           findOne (posts s) ''_id'' (Some P) = Some p \<and>
           (fld p ''upVote'' = Some (JNum (of_int n)) \<and> \<bar>n\<bar> < 2 ^ 53 \<or> fld p ''upVote'' = None \<and> n = 0) \<longrightarrow>
         (\<exists>k<length (posts s). posts s ! k = p \<and>
            (\<forall>j<k. \<not> matches ''_id'' (Some P) (posts s ! j)) \<and>
            patch_post_vote e r s
              = (Sent 200 (UpdateResult 1),
                 s\<lparr>posts := (posts s)[k := AList.update ''upVote'' (JNum (of_int (n + 1))) p]\<rparr>)))) \<and>
   (fld (body r) ''type'' = Some (JStr ''down'') \<longrightarrow>
      (\<forall>h. h \<noteq> ''downVote'' \<longrightarrow>
         map (\<lambda>d. fld d h) (posts (snd (patch_post_vote e r s))) = map (\<lambda>d. fld d h) (posts s)) \<and>
      snd (patch_post_vote e r s) = s\<lparr>posts := posts (snd (patch_post_vote e r s))\<rparr> \<and>
      (\<forall>P p. \<forall>n::int. ObjectId e (Some (JStr (param r))) = Some P \<and>
           findOne (posts s) ''_id'' (Some P) = Some p \<and>
           (fld p ''downVote'' = Some (JNum (of_int n)) \<and> \<bar>n\<bar> < 2 ^ 53 \<or> fld p ''downVote'' = None \<and> n = 0) \<longrightarrow>
         (\<exists>k<length (posts s). posts s ! k = p \<and>
            (\<forall>j<k. \<not> matches ''_id'' (Some P) (posts s ! j)) \<and>
            patch_post_vote e r s
              = (Sent 200 (UpdateResult 1),
                 s\<lparr>posts := (posts s)[k := AList.update ''downVote'' (JNum (of_int (n + 1))) p]\<rparr>))))"
proof (intro conjI impI allI)
  assume "fld (body r) ''type'' \<noteq> Some (JStr ''up'') \<and> fld (body r) ''type'' \<noteq> Some (JStr ''down'')"
  then show "snd (patch_post_vote e r s) = s" "\<not> responded (fst (patch_post_vote e r s))"
    by (cases "ObjectId e (Some (JStr (param r)))"; simp add: patch_post_vote_def Let_def)+
next
  fix h :: string
  assume "fld (body r) ''type'' = Some (JStr ''up'')" "h \<noteq> ''upVote''"
  then show "map (\<lambda>d. fld d h) (posts (snd (patch_post_vote e r s))) = map (\<lambda>d. fld d h) (posts s)"
    by (simp add: vote_up vote_with_frame)
next
  fix h :: string
  assume "fld (body r) ''type'' = Some (JStr ''down'')" "h \<noteq> ''downVote''"
  then show "map (\<lambda>d. fld d h) (posts (snd (patch_post_vote e r s))) = map (\<lambda>d. fld d h) (posts s)"
    by (simp add: vote_down vote_with_frame)
next
  assume "fld (body r) ''type'' = Some (JStr ''up'')"
  then show "snd (patch_post_vote e r s) = s\<lparr>posts := posts (snd (patch_post_vote e r s))\<rparr>"
    using vote_with_rest[of e r s "''upVote''"] by (simp only: vote_up)
next
  assume "fld (body r) ''type'' = Some (JStr ''down'')"
  then show "snd (patch_post_vote e r s) = s\<lparr>posts := posts (snd (patch_post_vote e r s))\<rparr>"
    using vote_with_rest[of e r s "''downVote''"] by (simp only: vote_down)
next
  fix P p n
  assume up: "fld (body r) ''type'' = Some (JStr ''up'')"
    and "ObjectId e (Some (JStr (param r))) = Some P \<and>
           findOne (posts s) ''_id'' (Some P) = Some p \<and>
           (fld p ''upVote'' = Some (JNum (of_int n)) \<and> \<bar>n\<bar> < 2 ^ 53 \<or> fld p ''upVote'' = None \<and> n = 0)"
  then have "ObjectId e (Some (JStr (param r))) = Some P"
    "findOne (posts s) ''_id'' (Some P) = Some p"
    "fld p ''upVote'' = Some (JNum (of_int n)) \<and> \<bar>n\<bar> < 2 ^ 53 \<or> fld p ''upVote'' = None \<and> n = 0"
    by blast+
  from vote_with_hit[OF this]
  show "\<exists>k<length (posts s). posts s ! k = p \<and>
            (\<forall>j<k. \<not> matches ''_id'' (Some P) (posts s ! j)) \<and>
            patch_post_vote e r s
              = (Sent 200 (UpdateResult 1),
                 s\<lparr>posts := (posts s)[k := AList.update ''upVote'' (JNum (of_int (n + 1))) p]\<rparr>)"
    by (simp only: vote_up[OF up])
next
  fix P p n
  assume down: "fld (body r) ''type'' = Some (JStr ''down'')"
    and "ObjectId e (Some (JStr (param r))) = Some P \<and>
           findOne (posts s) ''_id'' (Some P) = Some p \<and>
           (fld p ''downVote'' = Some (JNum (of_int n)) \<and> \<bar>n\<bar> < 2 ^ 53 \<or> fld p ''downVote'' = None \<and> n = 0)"
  then have "ObjectId e (Some (JStr (param r))) = Some P"
    "findOne (posts s) ''_id'' (Some P) = Some p"
    "fld p ''downVote'' = Some (JNum (of_int n)) \<and> \<bar>n\<bar> < 2 ^ 53 \<or> fld p ''downVote'' = None \<and> n = 0"
    by blast+
  from vote_with_hit[OF this]
  show "\<exists>k<length (posts s). posts s ! k = p \<and>
            (\<forall>j<k. \<not> matches ''_id'' (Some P) (posts s ! j)) \<and>
            patch_post_vote e r s
              = (Sent 200 (UpdateResult 1),
                 s\<lparr>posts := (posts s)[k := AList.update ''downVote'' (JNum (of_int (n + 1))) p]\<rparr>)"
    by (simp only: vote_down[OF down])
qed

theorem patch_post_vote_frame_witness:
  "patch_post_vote test_env (req None ''000000000000000000000002'' [(''type'', JStr ''sideways'')]) forum
     = (NoResponse, forum) \<and>
   patch_post_vote test_env (req None ''000000000000000000000002'' [(''type'', JStr ''up'')]) forum
     = (Sent 200 (UpdateResult 1),
        forum\<lparr>posts := (posts forum)
           [1 := [(''_id'', JOid 2), (''authorEmail'', JStr ''alice@hive.io''), (''upVote'', JNum 4),
                  (''downVote'', JNum 1)]]\<rparr>) \<and>
   patch_post_vote test_env (req None ''000000000000000000000002'' [(''type'', JStr ''down'')]) forum
     = (Sent 200 (UpdateResult 1),
        forum\<lparr>posts := (posts forum)
           [1 := [(''_id'', JOid 2), (''authorEmail'', JStr ''alice@hive.io''), (''upVote'', JNum 3),
                  (''downVote'', JNum 2)]]\<rparr>)"
proof -
  let ?r0 = "req None ''000000000000000000000002'' [(''type'', JStr ''sideways'')]"
  let ?ru = "req None ''000000000000000000000002'' [(''type'', JStr ''up'')]"
  let ?rd = "req None ''000000000000000000000002'' [(''type'', JStr ''down'')]"
  let ?p = "post_by ''alice@hive.io'' 2"
  have oid: "ObjectId test_env (Some (JStr ''000000000000000000000002'')) = Some (JOid 2)"
    by (simp add: fixture_defs)
  have par: "param ?r0 = ''000000000000000000000002''" "param ?ru = ''000000000000000000000002''"
    "param ?rd = ''000000000000000000000002''"
    by (simp_all add: req_def)
  have ty: "fld (body ?r0) ''type'' = Some (JStr ''sideways'')"
    "fld (body ?ru) ''type'' = Some (JStr ''up'')" "fld (body ?rd) ''type'' = Some (JStr ''down'')"
    by (simp_all add: req_def fld_def)
  have found: "findOne (posts forum) ''_id'' (Some (JOid 2)) = Some ?p"
    by (simp add: fixture_defs store_defs)
  have cnt: "fld ?p ''upVote'' = Some (JNum (of_int 3)) \<and> \<bar>3\<bar> < (2::int) ^ 53"
    by (simp add: post_by_def fld_def)
  \<comment> \<open>no response and no change for an unknown type\<close>
  from patch_post_vote_frame[of ?r0 test_env forum] ty(1)
  have s0: "snd (patch_post_vote test_env ?r0 forum) = forum"
    by simp
  have "fst (patch_post_vote test_env ?r0 forum) = NoResponse"
    by (simp add: patch_post_vote_def Let_def par oid ty)
  with s0 have 1: "patch_post_vote test_env ?r0 forum = (NoResponse, forum)"
    by (simp add: prod_eq_iff)
  \<comment> \<open>an up vote\<close>
  have "\<exists>k<length (posts forum). posts forum ! k = ?p \<and>
            (\<forall>j<k. \<not> matches ''_id'' (Some (JOid 2)) (posts forum ! j)) \<and>
            patch_post_vote test_env ?ru forum
              = (Sent 200 (UpdateResult 1),
                 forum\<lparr>posts := (posts forum)[k := AList.update ''upVote'' (JNum (of_int (3 + 1))) ?p]\<rparr>)"
    using patch_post_vote_frame[of ?ru test_env forum] ty(2) oid found cnt
    by (simp only: par) blast
  then have "fst (patch_post_vote test_env ?ru forum) = Sent 200 (UpdateResult 1)"
    by (elim exE conjE) simp
  moreover have "snd (patch_post_vote test_env ?ru forum)
      = forum\<lparr>posts := (posts forum)
           [1 := [(''_id'', JOid 2), (''authorEmail'', JStr ''alice@hive.io''), (''upVote'', JNum 4),
                  (''downVote'', JNum 1)]]\<rparr>"
    by (simp add: patch_post_vote_def Let_def fixture_defs updateOne_def inc_field_def
          matchedCount_def store_defs)
  ultimately have 2: "patch_post_vote test_env ?ru forum
     = (Sent 200 (UpdateResult 1),
        forum\<lparr>posts := (posts forum)
           [1 := [(''_id'', JOid 2), (''authorEmail'', JStr ''alice@hive.io''), (''upVote'', JNum 4),
                  (''downVote'', JNum 1)]]\<rparr>)"
    by (simp add: prod_eq_iff)
  \<comment> \<open>a down vote\<close>
  have 3: "patch_post_vote test_env ?rd forum
     = (Sent 200 (UpdateResult 1),
        forum\<lparr>posts := (posts forum)
           [1 := [(''_id'', JOid 2), (''authorEmail'', JStr ''alice@hive.io''), (''upVote'', JNum 3),
                  (''downVote'', JNum 2)]]\<rparr>)"
    by (simp add: patch_post_vote_def Let_def fixture_defs updateOne_def inc_field_def
          matchedCount_def store_defs)
  from 1 2 3 show ?thesis by blast
qed

text \<open>
  The claim as written fails for a counter beyond \<open>2^53\<close>, which a post can be created
  with: an up vote on a post whose \<open>upVote\<close> is \<open>10^16\<close> is answered with the update result and
  leaves the counter, and the whole store, as it was.
\<close>

theorem patch_post_vote_frame_counterexample:
  "findOne (posts rich_forum) ''_id'' (Some (JOid 1))
     = Some [(''_id'', JOid 1), (''authorEmail'', JStr ''alice@hive.io''),
             (''upVote'', JNum 10000000000000000), (''downVote'', JNum 0)] \<and>
   patch_post_vote test_env (req None ''000000000000000000000001'' [(''type'', JStr ''up'')]) rich_forum
     = (Sent 200 (UpdateResult 1), rich_forum)"
  by (simp add: patch_post_vote_def Let_def rich_forum_def fixture_defs updateOne_def inc_field_def
        matchedCount_def store_defs round_double_ties)

end
